theory Spec2Isabelle
  imports Main "HOL-Library.Word"
begin

text \<open>
  The client side of the shared-memory channel between the x64 driver and the ARM64
  encoder process (\<^verbatim>\<open>Arm64EncoderIpc.h\<close>, \<^verbatim>\<open>Arm64EncoderIpc.cpp\<close>). The client object
  is a record and each member function a function from the client and the state of the
  world outside it to the result, the new client and the new state of the world. The
  Windows calls the client makes are functions on that state; every one of them is
  recorded in a trace, so that the order, the arguments and the number of the calls can
  be stated. The worker process is not part of the sources: what it does shows only in
  what the client observes.
\<close>

section \<open>Arm64EncoderIpc.h: constants, shared-memory layout, client object\<close>

type_synonym u8 = "8 word"
type_synonym u32 = "32 word"
type_synonym u64 = "64 word"
type_synonym DWORD = "32 word"

text \<open>\<^verbatim>\<open>constexpr size_t FRAME_BUFFER_SIZE = 4096 * 2160 * 4;\<close> and
  \<^verbatim>\<open>constexpr size_t PACKET_BUFFER_SIZE = 4 * 1024 * 1024;\<close>\<close>

definition FRAME_BUFFER_SIZE :: nat where
  "FRAME_BUFFER_SIZE = 4096 * 2160 * 4"

definition PACKET_BUFFER_SIZE :: nat where
  "PACKET_BUFFER_SIZE = 4 * 1024 * 1024"

text \<open>\<^verbatim>\<open>enum class PixelFormat : uint8_t { RGBA = 0, NV12 = 1, P010 = 2 }\<close>;
  \<open>PixelFormat_u8\<close> is \<^verbatim>\<open>static_cast<uint8_t>(format)\<close>.\<close>

datatype PixelFormat = RGBA | NV12 | P010

fun PixelFormat_u8 :: "PixelFormat \<Rightarrow> u8" where
  "PixelFormat_u8 RGBA = 0"
| "PixelFormat_u8 NV12 = 1"
| "PixelFormat_u8 P010 = 2"

text \<open>The two headers. Field names carry the prefix \<open>fh_\<close> / \<open>ph_\<close> because both
  structs have a \<open>timestamp_ns\<close>. The \<open>_padding[3]\<close> members are never accessed
  by the client and carry no value here; they are accounted for in the layout below.\<close>

record FrameHeader =
  fh_width :: u32
  fh_height :: u32
  fh_timestamp_ns :: u64
  fh_insert_idr :: u8
  fh_pixel_format :: u8
  fh_row_pitch :: u32
  fh_data_size :: u32
  fh_shutdown :: u8

record PacketHeader =
  ph_size :: u32
  ph_timestamp_ns :: u64
  ph_is_idr :: u8

text \<open>\<^verbatim>\<open>struct SharedMemoryLayout\<close>. The two byte arrays are stores from index to
  byte; only indices below the array's capacity denote bytes of the array, and the
  client never indexes beyond them (both copies are guarded by a size check).\<close>

record SharedMemoryLayout =
  frame_header :: FrameHeader
  packet_header :: PacketHeader
  frame_buffer :: "nat \<Rightarrow> u8"
  packet_buffer :: "nat \<Rightarrow> u8"

subsection \<open>Declared layout under \<^verbatim>\<open>#pragma pack(push, 1)\<close>\<close>

text \<open>A struct declaration is the list of its members in declaration order, each with
  its size and natural alignment in bytes. Under \<^verbatim>\<open>#pragma pack(n)\<close> a member
  is placed at the next multiple of \<open>min n alignment\<close>, and the struct is padded at
  the end to a multiple of its own alignment, the largest of its members' effective
  alignments.\<close>

type_synonym member = "string \<times> nat \<times> nat"

definition align_up :: "nat \<Rightarrow> nat \<Rightarrow> nat" where
  "align_up a off = ((off + a - 1) div a) * a"

fun place :: "nat \<Rightarrow> nat \<Rightarrow> member list \<Rightarrow> (string \<times> nat) list" where
  "place pack off [] = []"
| "place pack off ((name, sz, al) # ms) =
     (let pos = align_up (min pack al) off in (name, pos) # place pack (pos + sz) ms)"

fun end_offset :: "nat \<Rightarrow> nat \<Rightarrow> member list \<Rightarrow> nat" where
  "end_offset pack off [] = off"
| "end_offset pack off ((name, sz, al) # ms) =
     end_offset pack (align_up (min pack al) off + sz) ms"

definition struct_align :: "nat \<Rightarrow> member list \<Rightarrow> nat" where
  "struct_align pack ms = fold max (map (\<lambda>(name, sz, al). min pack al) ms) 1"

definition struct_size :: "nat \<Rightarrow> member list \<Rightarrow> nat" where
  "struct_size pack ms = align_up (struct_align pack ms) (end_offset pack 0 ms)"

definition uint8_t :: "string \<Rightarrow> member" where "uint8_t name = (name, 1, 1)"
definition uint32_t :: "string \<Rightarrow> member" where "uint32_t name = (name, 4, 4)"
definition uint64_t :: "string \<Rightarrow> member" where "uint64_t name = (name, 8, 8)"

definition uint8_array :: "string \<Rightarrow> nat \<Rightarrow> member" where
  "uint8_array name n = (name, n, 1)"

definition FrameHeader_members :: "member list" where
  "FrameHeader_members =
     [uint32_t ''width'', uint32_t ''height'', uint64_t ''timestamp_ns'',
      uint8_t ''insert_idr'', uint8_t ''pixel_format'', uint32_t ''row_pitch'',
      uint32_t ''data_size'', uint8_t ''shutdown'', uint8_array ''_padding'' 3]"

definition PacketHeader_members :: "member list" where
  "PacketHeader_members =
     [uint32_t ''size'', uint64_t ''timestamp_ns'', uint8_t ''is_idr'',
      uint8_array ''_padding'' 3]"

definition SharedMemoryLayout_members :: "member list" where
  "SharedMemoryLayout_members =
     [(''frame_header'', struct_size 1 FrameHeader_members, struct_align 1 FrameHeader_members),
      (''packet_header'', struct_size 1 PacketHeader_members, struct_align 1 PacketHeader_members),
      uint8_array ''frame_buffer'' FRAME_BUFFER_SIZE,
      uint8_array ''packet_buffer'' PACKET_BUFFER_SIZE]"

subsection \<open>The client object\<close>

text \<open>A \<^verbatim>\<open>HANDLE\<close> or pointer is \<open>None\<close> for \<^verbatim>\<open>nullptr\<close> and \<open>Some\<close> of an
  identifier otherwise. The member \<open>m_codec\<close> and the third parameter of \<open>Initialize\<close>
  are those of the implementation file, which assigns and reads them.\<close>

type_synonym HANDLE = "nat option"

record EncoderIpcClient =
  m_sharedMemory :: HANDLE
  m_sharedPtr :: "nat option"
  m_frameReadyEvent :: HANDLE
  m_packetReadyEvent :: HANDLE
  m_encoderReadyEvent :: HANDLE
  m_encoderProcess :: HANDLE
  m_width :: u32
  m_height :: u32
  m_codec :: string
  m_connected :: bool

text \<open>The member initialisers of the class: the state after the constructor.\<close>

definition EncoderIpcClient_new :: EncoderIpcClient where
  "EncoderIpcClient_new =
     \<lparr> m_sharedMemory = None, m_sharedPtr = None, m_frameReadyEvent = None,
       m_packetReadyEvent = None, m_encoderReadyEvent = None, m_encoderProcess = None,
       m_width = 0, m_height = 0, m_codec = [], m_connected = False \<rparr>"


section \<open>The operating system as seen by the client\<close>

text \<open>The three named events; the only named file mapping is \<^verbatim>\<open>SHARED_MEM_NAME\<close>.\<close>

datatype EventName = FRAME_READY_EVENT | PACKET_READY_EVENT | ENCODER_READY_EVENT

datatype kobj = KMapping | KEvent EventName | KProcess | KThread

datatype wait_result = WAIT_OBJECT_0 | WAIT_TIMEOUT | WAIT_FAILED

text \<open>\<^verbatim>\<open>wchar_t\<close> is the 16-bit character of the platform and \<^verbatim>\<open>std::wstring\<close> a list of
  them; a \<^verbatim>\<open>std::filesystem::path\<close> is the list of its components.\<close>

type_synonym wchar_t = "16 word"
type_synonym wide_string = "wchar_t list"
type_synonym path = "wide_string list"

datatype oscall =
    OpenFileMappingW_call
  | MapViewOfFile_call HANDLE
  | UnmapViewOfFile_call nat
  | OpenEventW_call EventName
  | SetEvent_call HANDLE
  | CloseHandle_call nat
  | WaitForSingleObject_call HANDLE DWORD
  | Sleep_call nat
  | GetModuleFileNameW_call
  | exists_call path
  | CreateProcessW_call wide_string

text \<open>The state of everything outside the client object. The worker process runs
  concurrently and is not part of the sources, so the record fixes what the client
  observes when it asks:
  \<^item> \<open>shm\<close>: the contents of the named shared region;
  \<^item> \<open>events\<close>: for each named event, \<open>None\<close> if it does not exist, \<open>Some True\<close> if
    it is signalled by the time a wait on it expires, \<open>Some False\<close> otherwise;
  \<^item> \<open>mapping_visible\<close>: whether the named mapping exists at each successive
    \<^verbatim>\<open>OpenFileMappingW\<close> (absent once the list is used up);
  \<^item> \<open>view_ok\<close>: whether each successive \<^verbatim>\<open>MapViewOfFile\<close> of a valid mapping
    handle succeeds;
  \<^item> \<open>module_path\<close>, \<open>files\<close>, \<open>spawn_ok\<close>, \<open>worker_exits\<close>: the path of the host
    binary, the file system, whether \<^verbatim>\<open>CreateProcessW\<close> succeeds, whether the
    worker exits within a wait on its process handle;
  \<^item> \<open>handles\<close>, \<open>views\<close>, \<open>next_id\<close>: the client process's handle table, its mapped
    views and the next identifier the kernel hands out;
  \<^item> \<open>faulted\<close>: set when a null region pointer is dereferenced;
  \<^item> \<open>trace\<close>: the system calls made so far, oldest first.\<close>

record os =
  shm :: SharedMemoryLayout
  events :: "EventName \<Rightarrow> bool option"
  mapping_visible :: "bool list"
  view_ok :: "bool list"
  module_path :: path
  files :: "path \<Rightarrow> bool"
  spawn_ok :: bool
  worker_exits :: bool
  handles :: "nat \<Rightarrow> kobj option"
  views :: "nat set"
  next_id :: nat
  faulted :: bool
  trace :: "oscall list"

definition log :: "oscall \<Rightarrow> os \<Rightarrow> os" where
  "log x w = w\<lparr>trace := trace w @ [x]\<rparr>"

definition alloc :: "kobj \<Rightarrow> os \<Rightarrow> nat \<times> os" where
  "alloc k w =
     (next_id w, w\<lparr>handles := (handles w)(next_id w \<mapsto> k), next_id := Suc (next_id w)\<rparr>)"

definition OpenFileMappingW :: "os \<Rightarrow> HANDLE \<times> os" where
  "OpenFileMappingW w =
     (case mapping_visible w of
        [] \<Rightarrow> (None, log OpenFileMappingW_call w)
      | b # bs \<Rightarrow>
          (let w1 = log OpenFileMappingW_call (w\<lparr>mapping_visible := bs\<rparr>) in
           if b then (let (h, w2) = alloc KMapping w1 in (Some h, w2)) else (None, w1)))"

definition MapViewOfFile :: "HANDLE \<Rightarrow> os \<Rightarrow> nat option \<times> os" where
  "MapViewOfFile h w =
     (let w1 = log (MapViewOfFile_call h) w in
      case h of
        None \<Rightarrow> (None, w1)
      | Some n \<Rightarrow>
          (case handles w1 n of
             Some KMapping \<Rightarrow>
               (case view_ok w1 of
                  [] \<Rightarrow> (None, w1)
                | b # bs \<Rightarrow>
                    if b then
                      (Some (next_id w1),
                       w1\<lparr>view_ok := bs, views := insert (next_id w1) (views w1),
                          next_id := Suc (next_id w1)\<rparr>)
                    else (None, w1\<lparr>view_ok := bs\<rparr>))
           | _ \<Rightarrow> (None, w1)))"

definition UnmapViewOfFile :: "nat \<Rightarrow> os \<Rightarrow> os" where
  "UnmapViewOfFile p w = (log (UnmapViewOfFile_call p) w)\<lparr>views := views w - {p}\<rparr>"

definition OpenEventW :: "EventName \<Rightarrow> os \<Rightarrow> HANDLE \<times> os" where
  "OpenEventW name w =
     (let w1 = log (OpenEventW_call name) w in
      case events w1 name of
        None \<Rightarrow> (None, w1)
      | Some s \<Rightarrow> (let (h, w2) = alloc (KEvent name) w1 in (Some h, w2)))"

definition SetEvent :: "HANDLE \<Rightarrow> os \<Rightarrow> bool \<times> os" where
  "SetEvent h w =
     (let w1 = log (SetEvent_call h) w in
      case h of
        None \<Rightarrow> (False, w1)
      | Some n \<Rightarrow>
          (case handles w1 n of
             Some (KEvent e) \<Rightarrow> (True, w1\<lparr>events := (events w1)(e \<mapsto> True)\<rparr>)
           | _ \<Rightarrow> (False, w1)))"

definition CloseHandle :: "nat \<Rightarrow> os \<Rightarrow> os" where
  "CloseHandle n w = (log (CloseHandle_call n) w)\<lparr>handles := (handles w)(n := None)\<rparr>"

text \<open>Modelled from the spec: the events are created by the worker, which is not
  among the sources; the spec gives them auto-reset semantics (each wait consumes
  exactly one raise), so a satisfied wait resets the event.\<close>

definition WaitForSingleObject :: "HANDLE \<Rightarrow> DWORD \<Rightarrow> os \<Rightarrow> wait_result \<times> os" where
  "WaitForSingleObject h timeout_ms w =
     (let w1 = log (WaitForSingleObject_call h timeout_ms) w in
      case h of
        None \<Rightarrow> (WAIT_FAILED, w1)
      | Some n \<Rightarrow>
          (case handles w1 n of
             Some (KEvent e) \<Rightarrow>
               if events w1 e = Some True
               then (WAIT_OBJECT_0, w1\<lparr>events := (events w1)(e \<mapsto> False)\<rparr>)
               else (WAIT_TIMEOUT, w1)
           | Some KProcess \<Rightarrow> (if worker_exits w1 then WAIT_OBJECT_0 else WAIT_TIMEOUT, w1)
           | _ \<Rightarrow> (WAIT_FAILED, w1)))"

definition Sleep :: "nat \<Rightarrow> os \<Rightarrow> os" where
  "Sleep ms w = log (Sleep_call ms) w"

definition GetModuleFileNameW :: "os \<Rightarrow> path \<times> os" where
  "GetModuleFileNameW w = (module_path w, log GetModuleFileNameW_call w)"

definition exists_path :: "path \<Rightarrow> os \<Rightarrow> bool \<times> os" where
  "exists_path p w = (files w p, log (exists_call p) w)"

text \<open>\<^verbatim>\<open>CreateProcessW\<close>: on success the process and its primary thread get a handle each.\<close>

definition CreateProcessW :: "wide_string \<Rightarrow> os \<Rightarrow> (nat \<times> nat) option \<times> os" where
  "CreateProcessW cmdLine w =
     (let w1 = log (CreateProcessW_call cmdLine) w in
      if spawn_ok w1 then
        (let (hProcess, w2) = alloc KProcess w1; (hThread, w3) = alloc KThread w2
         in (Some (hProcess, hThread), w3))
      else (None, w1))"

text \<open>Access to the region through \<open>m_sharedPtr\<close>. Dereferencing \<^verbatim>\<open>nullptr\<close> is a
  fault, recorded in \<open>faulted\<close>.\<close>

definition write_shared ::
  "nat option \<Rightarrow> (SharedMemoryLayout \<Rightarrow> SharedMemoryLayout) \<Rightarrow> os \<Rightarrow> os" where
  "write_shared p f w =
     (case p of None \<Rightarrow> w\<lparr>faulted := True\<rparr> | Some a \<Rightarrow> w\<lparr>shm := f (shm w)\<rparr>)"

definition read_shared :: "nat option \<Rightarrow> os \<Rightarrow> SharedMemoryLayout \<times> os" where
  "read_shared p w =
     (case p of None \<Rightarrow> (shm w, w\<lparr>faulted := True\<rparr>) | Some a \<Rightarrow> (shm w, w))"

text \<open>\<^verbatim>\<open>memcpy(dst, src, n)\<close>: the first \<open>n\<close> bytes of \<open>dst\<close> become those of \<open>src\<close>.\<close>

definition memcpy :: "(nat \<Rightarrow> u8) \<Rightarrow> (nat \<Rightarrow> u8) \<Rightarrow> nat \<Rightarrow> (nat \<Rightarrow> u8)" where
  "memcpy dst src n = (\<lambda>i. if i < n then src i else dst i)"

section \<open>Arm64EncoderIpc.cpp: the client's operations\<close>

subsection \<open>Strings and paths\<close>

text \<open>A wide literal \<^verbatim>\<open>L"..."\<close>, or a narrow literal of ASCII characters converted to the
  native encoding of a path: each character keeps its code.\<close>

definition wide :: "string \<Rightarrow> wide_string" where
  "wide s = map (\<lambda>ch. of_nat (of_char ch)) s"

text \<open>The conversion of a \<^verbatim>\<open>char\<close> to \<^verbatim>\<open>wchar_t\<close>, as made element by element by
  \<^verbatim>\<open>std::wstring wcodec(m_codec.begin(), m_codec.end())\<close>. \<^verbatim>\<open>char\<close> is signed with the
  compiler of this platform, so a byte from 0x80 on is a negative value and converts to
  0xFF80 and up; an ASCII character keeps its code.\<close>

definition wchar_of_char :: "char \<Rightarrow> wchar_t" where
  "wchar_of_char ch = scast (of_nat (of_char ch) :: 8 word)"

text \<open>\<^verbatim>\<open>std::to_wstring\<close> of an unsigned value: its decimal digits.\<close>

definition digit_wchar :: "nat \<Rightarrow> wchar_t" where
  "digit_wchar d = wide ''0123456789'' ! (d mod 10)"

fun to_wstring :: "nat \<Rightarrow> wide_string" where
  "to_wstring n =
     (if n < 10 then [digit_wchar n] else to_wstring (n div 10) @ [digit_wchar (n mod 10)])"

declare to_wstring.simps [simp del]

text \<open>On a path, \<^verbatim>\<open>parent_path()\<close> drops the last component, \<^verbatim>\<open>operator/\<close> appends
  one, and \<^verbatim>\<open>wstring()\<close> joins the components with the preferred separator, the
  backslash.\<close>

definition parent_path :: "path \<Rightarrow> path" where
  "parent_path p = butlast p"

definition path_append :: "path \<Rightarrow> wide_string \<Rightarrow> path" where
  "path_append p name = p @ [name]"

fun wstring :: "path \<Rightarrow> wide_string" where
  "wstring [] = []"
| "wstring [x] = x"
| "wstring (x # y # ys) = x @ [0x5C] @ wstring (y # ys)"

subsection \<open>\<^verbatim>\<open>Shutdown\<close>\<close>

text \<open>The pattern \<^verbatim>\<open>if (h != nullptr) { CloseHandle(h); h = nullptr; }\<close>; the
  assignment of \<^verbatim>\<open>nullptr\<close> is made on the client record by the caller.\<close>

definition close_if :: "HANDLE \<Rightarrow> os \<Rightarrow> os" where
  "close_if h w = (case h of None \<Rightarrow> w | Some n \<Rightarrow> CloseHandle n w)"

definition set_shutdown :: "SharedMemoryLayout \<Rightarrow> SharedMemoryLayout" where
  "set_shutdown r = r\<lparr>frame_header := (frame_header r)\<lparr>fh_shutdown := 1\<rparr>\<rparr>"

definition Shutdown :: "EncoderIpcClient \<Rightarrow> os \<Rightarrow> EncoderIpcClient \<times> os" where
  "Shutdown c w =
     (let w1 = (if m_sharedPtr c \<noteq> None \<and> m_connected c then
                  (let wa = write_shared (m_sharedPtr c) set_shutdown w in
                   if m_frameReadyEvent c \<noteq> None
                   then snd (SetEvent (m_frameReadyEvent c) wa) else wa)
                else w);
          w2 = (case m_sharedPtr c of None \<Rightarrow> w1 | Some p \<Rightarrow> UnmapViewOfFile p w1);
          w3 = close_if (m_sharedMemory c) w2;
          w4 = close_if (m_frameReadyEvent c) w3;
          w5 = close_if (m_packetReadyEvent c) w4;
          w6 = close_if (m_encoderReadyEvent c) w5;
          w7 = (case m_encoderProcess c of
                  None \<Rightarrow> w6
                | Some n \<Rightarrow> CloseHandle n (snd (WaitForSingleObject (Some n) 3000 w6)))
      in (c\<lparr>m_sharedPtr := None, m_sharedMemory := None, m_frameReadyEvent := None,
            m_packetReadyEvent := None, m_encoderReadyEvent := None,
            m_encoderProcess := None, m_connected := False\<rparr>, w7))"

subsection \<open>\<^verbatim>\<open>LaunchEncoderProcess\<close> and \<^verbatim>\<open>WaitForEncoderReady\<close>\<close>

definition encoderPath :: "os \<Rightarrow> path" where
  "encoderPath w = path_append (parent_path (module_path w)) (wide ''alvr_encoder_arm64.exe'')"

definition cmdLine :: "path \<Rightarrow> u32 \<Rightarrow> u32 \<Rightarrow> string \<Rightarrow> wide_string" where
  "cmdLine enc w h codec =
     wstring enc @ wide '' '' @ to_wstring (unat w) @ wide '' '' @ to_wstring (unat h)
       @ wide '' '' @ map wchar_of_char codec"

definition LaunchEncoderProcess ::
  "EncoderIpcClient \<Rightarrow> os \<Rightarrow> bool \<times> EncoderIpcClient \<times> os" where
  "LaunchEncoderProcess c w =
     (let (exePath, w1) = GetModuleFileNameW w;
          enc = path_append (parent_path exePath) (wide ''alvr_encoder_arm64.exe'');
          (present, w2) = exists_path enc w1
      in if \<not> present then (False, c, w2)
         else
           (let (pi, w3) = CreateProcessW (cmdLine enc (m_width c) (m_height c) (m_codec c)) w2
            in case pi of
                 None \<Rightarrow> (False, c, w3)
               | Some (hProcess, hThread) \<Rightarrow>
                   (True, c\<lparr>m_encoderProcess := Some hProcess\<rparr>, CloseHandle hThread w3)))"

definition WaitForEncoderReady :: "EncoderIpcClient \<Rightarrow> DWORD \<Rightarrow> os \<Rightarrow> bool \<times> os" where
  "WaitForEncoderReady c timeout_ms w =
     (if m_encoderReadyEvent c = None then (False, w)
      else (let (result, w1) = WaitForSingleObject (m_encoderReadyEvent c) timeout_ms w
            in (result = WAIT_OBJECT_0, w1)))"

subsection \<open>\<^verbatim>\<open>Initialize\<close>\<close>

text \<open>The loop \<^verbatim>\<open>for (int i = 0; i < 50; i++) { Sleep(100); m_sharedMemory =
  OpenFileMappingW(...); if (m_sharedMemory != nullptr) break; }\<close>; the result is the
  value \<open>m_sharedMemory\<close> has when the loop ends.\<close>

function poll_shared_memory :: "nat \<Rightarrow> os \<Rightarrow> HANDLE \<times> os" where
  "poll_shared_memory i w =
     (if i < 50 then
        (let (h, w1) = OpenFileMappingW (Sleep 100 w) in
         if h \<noteq> None then (h, w1) else poll_shared_memory (Suc i) w1)
      else (None, w))"
  by pat_completeness auto
termination
  by (relation "measure (\<lambda>(i, w). 50 - i)") auto

declare poll_shared_memory.simps [simp del]

text \<open>Lines 18 to 40: attach to the named mapping, launching the worker and polling
  when it is absent. The flag is \<open>False\<close> where the source returns \<^verbatim>\<open>false\<close>.\<close>

definition open_or_launch :: "EncoderIpcClient \<Rightarrow> os \<Rightarrow> bool \<times> EncoderIpcClient \<times> os" where
  "open_or_launch c w =
     (let (h0, w1) = OpenFileMappingW w; c1 = c\<lparr>m_sharedMemory := h0\<rparr> in
      if h0 = None then
        (let (launched, c2, w2) = LaunchEncoderProcess c1 w1 in
         if \<not> launched then (False, c2, w2)
         else
           (let (h1, w3) = poll_shared_memory 0 w2; c3 = c2\<lparr>m_sharedMemory := h1\<rparr> in
            if h1 = None then (False, c3, w3) else (True, c3, w3)))
      else (True, c1, w1))"

text \<open>Lines 42 to 73: map the view, open the three events, wait for readiness.
  \<open>Initialize\<close> reaches these lines only with a non-null \<open>m_sharedMemory\<close>, so the
  \<^verbatim>\<open>CloseHandle(m_sharedMemory)\<close> of the first failure path always has a handle to
  close.\<close>

definition map_and_handshake :: "EncoderIpcClient \<Rightarrow> os \<Rightarrow> bool \<times> EncoderIpcClient \<times> os" where
  "map_and_handshake c w =
     (let (p, w1) = MapViewOfFile (m_sharedMemory c) w; c1 = c\<lparr>m_sharedPtr := p\<rparr> in
      if p = None then
        (False, c1\<lparr>m_sharedMemory := None\<rparr>, close_if (m_sharedMemory c1) w1)
      else
        (let (fe, w2) = OpenEventW FRAME_READY_EVENT w1;
             (pe, w3) = OpenEventW PACKET_READY_EVENT w2;
             (ee, w4) = OpenEventW ENCODER_READY_EVENT w3;
             c2 = c1\<lparr>m_frameReadyEvent := fe, m_packetReadyEvent := pe,
                     m_encoderReadyEvent := ee\<rparr>
         in if fe = None \<or> pe = None \<or> ee = None then
              (let (c3, w5) = Shutdown c2 w4 in (False, c3, w5))
            else
              (let (ready, w5) = WaitForEncoderReady c2 5000 w4 in
               if \<not> ready then (let (c3, w6) = Shutdown c2 w5 in (False, c3, w6))
               else (True, c2\<lparr>m_connected := True\<rparr>, w5))))"

definition Initialize ::
  "EncoderIpcClient \<Rightarrow> os \<Rightarrow> u32 \<Rightarrow> u32 \<Rightarrow> string \<Rightarrow> bool \<times> EncoderIpcClient \<times> os" where
  "Initialize c w width height codec =
     (let c0 = c\<lparr>m_width := width, m_height := height, m_codec := codec\<rparr>;
          (attached, c1, w1) = open_or_launch c0 w
      in if \<not> attached then (False, c1, w1) else map_and_handshake c1 w1)"

subsection \<open>\<^verbatim>\<open>SendFrame\<close> and \<^verbatim>\<open>ReceivePacket\<close>\<close>

definition fill_frame_header ::
  "u32 \<Rightarrow> u32 \<Rightarrow> u64 \<Rightarrow> bool \<Rightarrow> PixelFormat \<Rightarrow> u32 \<Rightarrow> u32 \<Rightarrow>
   SharedMemoryLayout \<Rightarrow> SharedMemoryLayout" where
  "fill_frame_header width height timestamp_ns insert_idr format row_pitch data_size r =
     r\<lparr>frame_header := (frame_header r)
         \<lparr>fh_width := width, fh_height := height, fh_timestamp_ns := timestamp_ns,
          fh_insert_idr := (if insert_idr then 1 else 0),
          fh_pixel_format := PixelFormat_u8 format,
          fh_row_pitch := row_pitch, fh_data_size := data_size, fh_shutdown := 0\<rparr>\<rparr>"

definition copy_frame_data :: "(nat \<Rightarrow> u8) \<Rightarrow> u32 \<Rightarrow> SharedMemoryLayout \<Rightarrow> SharedMemoryLayout" where
  "copy_frame_data data data_size r =
     r\<lparr>frame_buffer := memcpy (frame_buffer r) data (unat data_size)\<rparr>"

text \<open>\<open>data\<close> is the memory the pointer argument points to. The client object is not
  modified, so only the result and the new state of the world are returned.\<close>

definition SendFrame ::
  "EncoderIpcClient \<Rightarrow> os \<Rightarrow> (nat \<Rightarrow> u8) \<Rightarrow> u32 \<Rightarrow> u32 \<Rightarrow> u32 \<Rightarrow> u32 \<Rightarrow> u64 \<Rightarrow> bool \<Rightarrow>
   PixelFormat \<Rightarrow> bool \<times> os" where
  "SendFrame c w data data_size width height row_pitch timestamp_ns insert_idr format =
     (if \<not> m_connected c \<or> m_sharedPtr c = None then (False, w)
      else if unat data_size > FRAME_BUFFER_SIZE then (False, w)
      else
        (let w1 = write_shared (m_sharedPtr c)
                    (fill_frame_header width height timestamp_ns insert_idr format
                       row_pitch data_size) w;
             w2 = write_shared (m_sharedPtr c) (copy_frame_data data data_size) w1;
             (raised, w3) = SetEvent (m_frameReadyEvent c) w2
         in if \<not> raised then (False, w3) else (True, w3)))"

text \<open>The three reference parameters are passed in and returned: where the source does
  not assign them they come back unchanged.\<close>

definition ReceivePacket ::
  "EncoderIpcClient \<Rightarrow> os \<Rightarrow> u8 list \<Rightarrow> u64 \<Rightarrow> bool \<Rightarrow> DWORD \<Rightarrow>
   bool \<times> u8 list \<times> u64 \<times> bool \<times> os" where
  "ReceivePacket c w packet_data timestamp_ns is_idr timeout_ms =
     (if \<not> m_connected c \<or> m_sharedPtr c = None then
        (False, packet_data, timestamp_ns, is_idr, w)
      else
        (let (result, w1) = WaitForSingleObject (m_packetReadyEvent c) timeout_ms w in
         if result \<noteq> WAIT_OBJECT_0 then (False, packet_data, timestamp_ns, is_idr, w1)
         else
           (let (r, w2) = read_shared (m_sharedPtr c) w1;
                sz = ph_size (packet_header r)
            in if unat sz > PACKET_BUFFER_SIZE then
                 (False, packet_data, timestamp_ns, is_idr, w2)
               else
                 (True, map (packet_buffer r) [0..<unat sz],
                  ph_timestamp_ns (packet_header r), ph_is_idr (packet_header r) \<noteq> 0, w2))))"

subsection \<open>Sequences of calls\<close>

text \<open>A call of one of the four public operations with its arguments, or a step of
  the world outside the client (the worker, the operating system).\<close>

datatype call =
    CInitialize u32 u32 string
  | CSendFrame "nat \<Rightarrow> u8" u32 u32 u32 u32 u64 bool PixelFormat
  | CReceivePacket DWORD
  | CShutdown
  | Outside "os \<Rightarrow> os"


fun is_Outside :: "call \<Rightarrow> bool" where
  "is_Outside (Outside f) = True"
| "is_Outside x = False"

fun step :: "call \<Rightarrow> EncoderIpcClient \<times> os \<Rightarrow> EncoderIpcClient \<times> os" where
  "step (CInitialize width height codec) (c, w) = snd (Initialize c w width height codec)"
| "step (CSendFrame data data_size width height row_pitch timestamp_ns insert_idr format) (c, w) =
     (c, snd (SendFrame c w data data_size width height row_pitch timestamp_ns insert_idr format))"
| "step (CReceivePacket timeout_ms) (c, w) =
     (c, snd (snd (snd (snd (ReceivePacket c w [] 0 False timeout_ms)))))"
| "step CShutdown (c, w) = Shutdown c w"
| "step (Outside f) (c, w) = (c, f w)"

fun run :: "call list \<Rightarrow> EncoderIpcClient \<times> os \<Rightarrow> EncoderIpcClient \<times> os" where
  "run [] s = s"
| "run (x # xs) s = run xs (step x s)"

text \<open>Modelled from the spec: the echoing collaborator of the round-trip property,
  which is not among the sources. Following the worker contract it consumes a
  raise of \<open>frame_ready\<close>, does nothing further when \<open>shutdown\<close> is set, and
  otherwise copies the frame slot's payload, size, timestamp and IDR flag into the
  packet buffer and header and raises \<open>packet_ready\<close>.\<close>

definition echo_frame :: "SharedMemoryLayout \<Rightarrow> SharedMemoryLayout" where
  "echo_frame r =
     r\<lparr>packet_header :=
         \<lparr>ph_size = fh_data_size (frame_header r),
          ph_timestamp_ns = fh_timestamp_ns (frame_header r),
          ph_is_idr = fh_insert_idr (frame_header r)\<rparr>,
       packet_buffer :=
         memcpy (packet_buffer r) (frame_buffer r) (unat (fh_data_size (frame_header r)))\<rparr>"

definition echo_worker :: "os \<Rightarrow> os" where
  "echo_worker w =
     (if events w FRAME_READY_EVENT \<noteq> Some True then w
      else
        (let w1 = w\<lparr>events := (events w)(FRAME_READY_EVENT \<mapsto> False)\<rparr> in
         if fh_shutdown (frame_header (shm w1)) \<noteq> 0 then w1
         else w1\<lparr>shm := echo_frame (shm w1),
                 events := (events w1)(PACKET_READY_EVENT \<mapsto> True)\<rparr>))"

section \<open>Properties of states and of sequences of calls\<close>


text \<open>The client object holds no resource at all.\<close>

definition all_released :: "EncoderIpcClient \<Rightarrow> bool" where
  "all_released c =
     (m_sharedPtr c = None \<and> m_sharedMemory c = None \<and> m_frameReadyEvent c = None \<and>
      m_packetReadyEvent c = None \<and> m_encoderReadyEvent c = None \<and>
      m_encoderProcess c = None \<and> \<not> m_connected c)"


text \<open>The client is disconnected in every state a sequence of calls goes through.\<close>

fun stays_disconnected :: "call list \<Rightarrow> EncoderIpcClient \<times> os \<Rightarrow> bool" where
  "stays_disconnected [] s = (\<not> m_connected (fst s))"
| "stays_disconnected (x # xs) s = (\<not> m_connected (fst s) \<and> stays_disconnected xs (step x s))"

text \<open>The handle, when there is one, refers to the event of the given name.\<close>

definition refers_to :: "HANDLE \<Rightarrow> EventName \<Rightarrow> os \<Rightarrow> bool" where
  "refers_to h e w = (case h of None \<Rightarrow> False | Some n \<Rightarrow> handles w n = Some (KEvent e))"

section \<open>Example states\<close>

definition blank_region :: SharedMemoryLayout where
  "blank_region =
     \<lparr> frame_header = \<lparr>fh_width = 0, fh_height = 0, fh_timestamp_ns = 0, fh_insert_idr = 0,
          fh_pixel_format = 0, fh_row_pitch = 0, fh_data_size = 0, fh_shutdown = 0\<rparr>,
       packet_header = \<lparr>ph_size = 0, ph_timestamp_ns = 0, ph_is_idr = 0\<rparr>,
       frame_buffer = (\<lambda>i. 0), packet_buffer = (\<lambda>i. 0) \<rparr>"

text \<open>A machine on which the worker already runs: the region and the three events
  exist and readiness has been signalled.\<close>

definition worker_running :: os where
  "worker_running =
     \<lparr> shm = blank_region,
       events = (\<lambda>e. if e = ENCODER_READY_EVENT then Some True else Some False),
       mapping_visible = [True, True], view_ok = [True, True],
       module_path = map wide [''C:'', ''ALVR'', ''bin'', ''vrserver.exe''],
       files = (\<lambda>p. False),
       spawn_ok = True, worker_exits = True,
       handles = (\<lambda>n. None), views = {}, next_id = 1, faulted = False, trace = [] \<rparr>"

text \<open>A machine on which the worker has to be launched; once launched it needs
  three polling intervals to create the region.\<close>

definition worker_installed :: os where
  "worker_installed =
     worker_running
       \<lparr> mapping_visible := [False, False, False, True],
         files := (\<lambda>p. p = map wide [''C:'', ''ALVR'', ''bin'', ''alvr_encoder_arm64.exe'']) \<rparr>"

text \<open>The client and the world after \<open>Initialize\<close> has succeeded on
  \<open>worker_running\<close>.\<close>

definition attached_client :: EncoderIpcClient where
  "attached_client =
     \<lparr> m_sharedMemory = Some 1, m_sharedPtr = Some 2, m_frameReadyEvent = Some 3,
       m_packetReadyEvent = Some 4, m_encoderReadyEvent = Some 5, m_encoderProcess = None,
       m_width = 1920, m_height = 1080, m_codec = ''h264'', m_connected = True \<rparr>"

definition attached_world :: os where
  "attached_world =
     worker_running
       \<lparr> events := (\<lambda>e. Some False),
         mapping_visible := [True], view_ok := [True],
         handles := (\<lambda>n. if n = 1 then Some KMapping
                           else if n = 3 then Some (KEvent FRAME_READY_EVENT)
                           else if n = 4 then Some (KEvent PACKET_READY_EVENT)
                           else if n = 5 then Some (KEvent ENCODER_READY_EVENT)
                           else None),
         views := {2}, next_id := 6,
         trace := [OpenFileMappingW_call, MapViewOfFile_call (Some 1),
                   OpenEventW_call FRAME_READY_EVENT, OpenEventW_call PACKET_READY_EVENT,
                   OpenEventW_call ENCODER_READY_EVENT,
                   WaitForSingleObject_call (Some 5) 5000] \<rparr>"

text \<open>The same, after the client's handles have become invalid: raising a signal
  fails.\<close>

definition stale_world :: os where
  "stale_world = attached_world\<lparr>handles := (\<lambda>n. None)\<rparr>"

text \<open>A connected world in which a packet of three bytes waits to be received.\<close>

definition packet_waiting :: os where
  "packet_waiting =
     attached_world
       \<lparr> shm := blank_region
           \<lparr> packet_header := \<lparr>ph_size = 3, ph_timestamp_ns = 1000, ph_is_idr = 1\<rparr>,
             packet_buffer := (\<lambda>i. if i < 3 then 10 + of_nat i else 0) \<rparr>,
         events := (\<lambda>e. if e = PACKET_READY_EVENT then Some True else Some False) \<rparr>"


text \<open>The client and the world after \<open>Initialize\<close> has succeeded on
  \<open>worker_installed\<close>: the client owns the handle of the process it launched.\<close>

definition launched_client :: EncoderIpcClient where
  "launched_client =
     \<lparr> m_sharedMemory = Some 3, m_sharedPtr = Some 4, m_frameReadyEvent = Some 5,
       m_packetReadyEvent = Some 6, m_encoderReadyEvent = Some 7, m_encoderProcess = Some 1,
       m_width = 1920, m_height = 1080, m_codec = ''h264'', m_connected = True \<rparr>"

definition launched_world :: os where
  "launched_world =
     worker_installed
       \<lparr> events := (\<lambda>e. Some False),
         mapping_visible := [], view_ok := [True],
         handles := (\<lambda>n. if n = 1 then Some KProcess
                           else if n = 3 then Some KMapping
                           else if n = 5 then Some (KEvent FRAME_READY_EVENT)
                           else if n = 6 then Some (KEvent PACKET_READY_EVENT)
                           else if n = 7 then Some (KEvent ENCODER_READY_EVENT)
                           else None),
         views := {4}, next_id := 8,
         trace := [OpenFileMappingW_call, GetModuleFileNameW_call,
                   exists_call (map wide [''C:'', ''ALVR'', ''bin'', ''alvr_encoder_arm64.exe'']),
                   CreateProcessW_call
                     (cmdLine (map wide [''C:'', ''ALVR'', ''bin'', ''alvr_encoder_arm64.exe''])
                        1920 1080 ''h264''),
                   CloseHandle_call 2,
                   Sleep_call 100, OpenFileMappingW_call,
                   Sleep_call 100, OpenFileMappingW_call,
                   Sleep_call 100, OpenFileMappingW_call,
                   MapViewOfFile_call (Some 3),
                   OpenEventW_call FRAME_READY_EVENT, OpenEventW_call PACKET_READY_EVENT,
                   OpenEventW_call ENCODER_READY_EVENT,
                   WaitForSingleObject_call (Some 7) 5000] \<rparr>"

text \<open>The named mapping is absent at each of the next \<open>k\<close> calls of
  \<^verbatim>\<open>OpenFileMappingW\<close>.\<close>

definition region_absent_for :: "nat \<Rightarrow> os \<Rightarrow> bool" where
  "region_absent_for k w = (True \<notin> set (take k (mapping_visible w)))"

text \<open>The calls of the polling loop.\<close>

fun is_poll_call :: "oscall \<Rightarrow> bool" where
  "is_poll_call OpenFileMappingW_call = True"
| "is_poll_call (Sleep_call ms) = True"
| "is_poll_call x = False"


text \<open>Machines on which the region is absent and the worker is not installed, or is
  installed but never creates the region.\<close>

definition worker_missing :: os where
  "worker_missing = worker_running\<lparr>mapping_visible := []\<rparr>"

definition region_never_appears :: os where
  "region_never_appears = worker_installed\<lparr>mapping_visible := []\<rparr>"

text \<open>The client and the world after \<open>Shutdown\<close> in the state \<open>attached_client\<close>,
  \<open>attached_world\<close>: the flag is set and frame-ready raised, every handle is closed.\<close>

definition released_client :: EncoderIpcClient where
  "released_client =
     \<lparr> m_sharedMemory = None, m_sharedPtr = None, m_frameReadyEvent = None,
       m_packetReadyEvent = None, m_encoderReadyEvent = None, m_encoderProcess = None,
       m_width = 1920, m_height = 1080, m_codec = ''h264'', m_connected = False \<rparr>"

definition released_world :: os where
  "released_world =
     attached_world
       \<lparr> shm := set_shutdown blank_region,
         events := (\<lambda>e. if e = FRAME_READY_EVENT then Some True else Some False),
         handles := (\<lambda>n. None), views := {},
         trace := trace attached_world @
           [SetEvent_call (Some 3), UnmapViewOfFile_call 2, CloseHandle_call 1,
            CloseHandle_call 3, CloseHandle_call 4, CloseHandle_call 5] \<rparr>"

section \<open>Reachability of the example states\<close>


section \<open>The layout of the shared region\<close>

lemma FrameHeader_place:
  "place 1 0 FrameHeader_members =
     [(''width'', 0), (''height'', 4), (''timestamp_ns'', 8), (''insert_idr'', 16),
      (''pixel_format'', 17), (''row_pitch'', 18), (''data_size'', 22), (''shutdown'', 26),
      (''_padding'', 27)]"
  by (simp add: FrameHeader_members_def uint8_t_def uint32_t_def uint64_t_def
      uint8_array_def align_up_def)

lemma FrameHeader_size: "struct_size 1 FrameHeader_members = 30"
  by (simp add: struct_size_def struct_align_def FrameHeader_members_def uint8_t_def
      uint32_t_def uint64_t_def uint8_array_def align_up_def)

lemma PacketHeader_place:
  "place 1 0 PacketHeader_members =
     [(''size'', 0), (''timestamp_ns'', 4), (''is_idr'', 12), (''_padding'', 13)]"
  by (simp add: PacketHeader_members_def uint8_t_def uint32_t_def uint64_t_def
      uint8_array_def align_up_def)

lemma PacketHeader_size: "struct_size 1 PacketHeader_members = 16"
  by (simp add: struct_size_def struct_align_def PacketHeader_members_def uint8_t_def
      uint32_t_def uint64_t_def uint8_array_def align_up_def)

lemma header_align:
  "struct_align 1 FrameHeader_members = 1" "struct_align 1 PacketHeader_members = 1"
  by (simp_all add: struct_align_def FrameHeader_members_def PacketHeader_members_def
      uint8_t_def uint32_t_def uint64_t_def uint8_array_def)

lemma SharedMemoryLayout_place:
  "place 1 0 SharedMemoryLayout_members =
     [(''frame_header'', 0), (''packet_header'', 30), (''frame_buffer'', 46),
      (''packet_buffer'', 46 + 35389440)]"
  using FrameHeader_size PacketHeader_size header_align
  by (simp add: SharedMemoryLayout_members_def uint8_array_def align_up_def
      FRAME_BUFFER_SIZE_def)

lemma SharedMemoryLayout_size:
  "struct_size 1 SharedMemoryLayout_members = 46 + 35389440 + 4194304"
  using FrameHeader_size PacketHeader_size header_align
  by (simp add: struct_size_def struct_align_def SharedMemoryLayout_members_def
      uint8_array_def align_up_def FRAME_BUFFER_SIZE_def PACKET_BUFFER_SIZE_def)

text \<open>Without the packing pragma the frame header would not be 30 bytes long: the
  natural alignment of \<open>row_pitch\<close> inserts two bytes before it.\<close>

lemma FrameHeader_unpacked: "struct_size 8 FrameHeader_members = 32"
  by (simp add: struct_size_def struct_align_def FrameHeader_members_def uint8_t_def
      uint32_t_def uint64_t_def uint8_array_def align_up_def)

text \<open>Claim C9. Under \<^verbatim>\<open>#pragma pack(push, 1)\<close> the members of \<open>FrameHeader\<close> lie at
  consecutive offsets in declaration order (width 4 bytes, height 4, timestamp_ns 8,
  insert_idr 1, pixel_format 1, row_pitch 4, data_size 4, shutdown 1, padding 3) and the
  struct is 30 bytes long; those of \<open>PacketHeader\<close> likewise (size 4, timestamp_ns 8,
  is_idr 1, padding 3), 16 bytes; in \<open>SharedMemoryLayout\<close> the two headers are followed
  by a frame buffer of 4096 * 2160 * 4 bytes and a packet buffer of 4 MiB; the pixel
  formats RGBA, NV12 and P010 are the bytes 0, 1 and 2.\<close>

theorem shared_region_layout:
  "place 1 0 FrameHeader_members =
     [(''width'', 0), (''height'', 4), (''timestamp_ns'', 8), (''insert_idr'', 16),
      (''pixel_format'', 17), (''row_pitch'', 18), (''data_size'', 22), (''shutdown'', 26),
      (''_padding'', 27)]
   \<and> struct_size 1 FrameHeader_members = 30
   \<and> place 1 0 PacketHeader_members =
     [(''size'', 0), (''timestamp_ns'', 4), (''is_idr'', 12), (''_padding'', 13)]
   \<and> struct_size 1 PacketHeader_members = 16
   \<and> place 1 0 SharedMemoryLayout_members =
     [(''frame_header'', 0), (''packet_header'', 30), (''frame_buffer'', 30 + 16),
      (''packet_buffer'', 30 + 16 + 4096 * 2160 * 4)]
   \<and> struct_size 1 SharedMemoryLayout_members = 30 + 16 + 4096 * 2160 * 4 + 4 * 1024 * 1024
   \<and> FRAME_BUFFER_SIZE = 4096 * 2160 * 4
   \<and> PACKET_BUFFER_SIZE = 4 * 1024 * 1024
   \<and> map PixelFormat_u8 [RGBA, NV12, P010] = [0, 1, 2]"
  using FrameHeader_place FrameHeader_size PacketHeader_place PacketHeader_size
    SharedMemoryLayout_place SharedMemoryLayout_size
  by (simp add: FRAME_BUFFER_SIZE_def PACKET_BUFFER_SIZE_def)

section \<open>What each system call leaves alone\<close>

lemma SetEvent_frame [simp]:
  "shm (snd (SetEvent h w)) = shm w"
  "handles (snd (SetEvent h w)) = handles w"
  "views (snd (SetEvent h w)) = views w"
  "faulted (snd (SetEvent h w)) = faulted w"
  "trace (snd (SetEvent h w)) = trace w @ [SetEvent_call h]"
  by (simp_all add: SetEvent_def log_def Let_def split: option.splits kobj.splits)

lemma SetEvent_result_shm [simp]: "fst (SetEvent h (w\<lparr>shm := r\<rparr>)) = fst (SetEvent h w)"
  by (simp add: SetEvent_def log_def Let_def split: option.splits kobj.splits)

lemma SetEvent_events_shm [simp]:
  "events (snd (SetEvent h (w\<lparr>shm := r\<rparr>))) = events (snd (SetEvent h w))"
  by (simp add: SetEvent_def log_def Let_def split: option.splits kobj.splits)

lemma SetEvent_result_faulted [simp]:
  "fst (SetEvent h (w\<lparr>faulted := b\<rparr>)) = fst (SetEvent h w)"
  by (simp add: SetEvent_def log_def Let_def split: option.splits kobj.splits)

lemma SetEvent_refers_to:
  "refers_to h e w \<Longrightarrow> fst (SetEvent h w) \<and> events (snd (SetEvent h w)) = (events w)(e \<mapsto> True)"
  by (auto simp: SetEvent_def refers_to_def log_def Let_def split: option.splits)

lemma SetEvent_fails_events: "\<not> fst (SetEvent h w) \<Longrightarrow> events (snd (SetEvent h w)) = events w"
  by (auto simp: SetEvent_def log_def Let_def split: option.splits kobj.splits)

lemma WaitForSingleObject_frame [simp]:
  "shm (snd (WaitForSingleObject h t w)) = shm w"
  "handles (snd (WaitForSingleObject h t w)) = handles w"
  "views (snd (WaitForSingleObject h t w)) = views w"
  "faulted (snd (WaitForSingleObject h t w)) = faulted w"
  "trace (snd (WaitForSingleObject h t w)) = trace w @ [WaitForSingleObject_call h t]"
  by (simp_all add: WaitForSingleObject_def log_def Let_def split: option.splits kobj.splits)

lemma WaitForSingleObject_shm_update:
  "WaitForSingleObject h t (w\<lparr>shm := r\<rparr>) =
     (fst (WaitForSingleObject h t w), (snd (WaitForSingleObject h t w))\<lparr>shm := r\<rparr>)"
  by (simp add: WaitForSingleObject_def log_def Let_def split: option.splits kobj.splits)

lemma WaitForSingleObject_refers_to:
  "refers_to h e w \<Longrightarrow> events w e = Some True \<Longrightarrow>
     fst (WaitForSingleObject h t w) = WAIT_OBJECT_0 \<and>
     events (snd (WaitForSingleObject h t w)) = (events w)(e \<mapsto> False)"
  by (auto simp: WaitForSingleObject_def refers_to_def log_def Let_def split: option.splits)

lemma CloseHandle_frame [simp]:
  "shm (CloseHandle n w) = shm w"
  "events (CloseHandle n w) = events w"
  "views (CloseHandle n w) = views w"
  "faulted (CloseHandle n w) = faulted w"
  "handles (CloseHandle n w) = (handles w)(n := None)"
  "trace (CloseHandle n w) = trace w @ [CloseHandle_call n]"
  by (simp_all add: CloseHandle_def log_def)

lemma close_if_frame [simp]:
  "shm (close_if h w) = shm w"
  "events (close_if h w) = events w"
  "views (close_if h w) = views w"
  "faulted (close_if h w) = faulted w"
  by (simp_all add: close_if_def split: option.splits)

lemma close_if_None [simp]: "close_if None w = w"
  by (simp add: close_if_def)

lemma UnmapViewOfFile_frame [simp]:
  "shm (UnmapViewOfFile p w) = shm w"
  "events (UnmapViewOfFile p w) = events w"
  "handles (UnmapViewOfFile p w) = handles w"
  "faulted (UnmapViewOfFile p w) = faulted w"
  "views (UnmapViewOfFile p w) = views w - {p}"
  "trace (UnmapViewOfFile p w) = trace w @ [UnmapViewOfFile_call p]"
  by (simp_all add: UnmapViewOfFile_def log_def)

section \<open>\<open>SendFrame\<close>\<close>

lemma SendFrame_rejects:
  "\<not> m_connected c \<or> m_sharedPtr c = None \<or> FRAME_BUFFER_SIZE < unat data_size \<Longrightarrow>
   SendFrame c w data data_size width height row_pitch timestamp_ns insert_idr format = (False, w)"
  by (auto simp: SendFrame_def)

lemma SendFrame_accepts:
  assumes "m_connected c" "m_sharedPtr c \<noteq> None" "unat data_size \<le> FRAME_BUFFER_SIZE"
  shows "SendFrame c w data data_size width height row_pitch timestamp_ns insert_idr format =
     (fst (SetEvent (m_frameReadyEvent c) w),
      snd (SetEvent (m_frameReadyEvent c)
        (w\<lparr>shm := copy_frame_data data data_size
            (fill_frame_header width height timestamp_ns insert_idr format row_pitch data_size
               (shm w))\<rparr>)))"
  using assms
  by (cases "m_sharedPtr c") (simp_all add: SendFrame_def write_shared_def Let_def case_prod_beta)

lemma written_region:
  "copy_frame_data data data_size
     (fill_frame_header width height timestamp_ns insert_idr format row_pitch data_size r) =
   \<lparr> frame_header =
       \<lparr>fh_width = width, fh_height = height, fh_timestamp_ns = timestamp_ns,
        fh_insert_idr = (if insert_idr then 1 else 0),
        fh_pixel_format = PixelFormat_u8 format, fh_row_pitch = row_pitch,
        fh_data_size = data_size, fh_shutdown = 0\<rparr>,
     packet_header = packet_header r,
     frame_buffer = (\<lambda>i. if i < unat data_size then data i else frame_buffer r i),
     packet_buffer = packet_buffer r \<rparr>"
  by (rule SharedMemoryLayout.equality)
     (simp_all add: copy_frame_data_def fill_frame_header_def memcpy_def)

text \<open>Claim C1. In the connected state, with \<open>data_size\<close> at most the capacity of the
  frame buffer, \<open>SendFrame\<close> leaves the region with the full header (the IDR flag and
  the pixel format as single bytes, \<open>shutdown\<close> 0), with exactly the first \<open>data_size\<close>
  bytes of the frame buffer replaced by the input and everything else as it was; it
  then makes one call of \<open>SetEvent\<close> on the frame-ready handle and returns that
  call's result. The region is written whether or not the raise succeeds. When the
  handle refers to the frame-ready event, the call succeeds and the event is set.\<close>

theorem SendFrame_writes_then_raises:
  assumes "m_connected c" and "m_sharedPtr c \<noteq> None"
    and "unat data_size \<le> FRAME_BUFFER_SIZE"
  shows "shm (snd (SendFrame c w data data_size width height row_pitch timestamp_ns
                    insert_idr format)) =
     \<lparr> frame_header =
         \<lparr>fh_width = width, fh_height = height, fh_timestamp_ns = timestamp_ns,
          fh_insert_idr = (if insert_idr then 1 else 0),
          fh_pixel_format = PixelFormat_u8 format, fh_row_pitch = row_pitch,
          fh_data_size = data_size, fh_shutdown = 0\<rparr>,
       packet_header = packet_header (shm w),
       frame_buffer = (\<lambda>i. if i < unat data_size then data i else frame_buffer (shm w) i),
       packet_buffer = packet_buffer (shm w) \<rparr>
   \<and> trace (snd (SendFrame c w data data_size width height row_pitch timestamp_ns
                    insert_idr format)) = trace w @ [SetEvent_call (m_frameReadyEvent c)]
   \<and> fst (SendFrame c w data data_size width height row_pitch timestamp_ns insert_idr format)
       = fst (SetEvent (m_frameReadyEvent c) w)
   \<and> (refers_to (m_frameReadyEvent c) FRAME_READY_EVENT w \<longrightarrow>
        fst (SendFrame c w data data_size width height row_pitch timestamp_ns insert_idr format)
        \<and> events (snd (SendFrame c w data data_size width height row_pitch timestamp_ns
                    insert_idr format)) = (events w)(FRAME_READY_EVENT \<mapsto> True))
   \<and> (\<not> fst (SendFrame c w data data_size width height row_pitch timestamp_ns insert_idr
              format) \<longrightarrow>
        events (snd (SendFrame c w data data_size width height row_pitch timestamp_ns
                    insert_idr format)) = events w)
   \<and> faulted (snd (SendFrame c w data data_size width height row_pitch timestamp_ns
                    insert_idr format)) = faulted w"
proof -
  let ?r = "copy_frame_data data data_size
     (fill_frame_header width height timestamp_ns insert_idr format row_pitch data_size (shm w))"
  have eq: "SendFrame c w data data_size width height row_pitch timestamp_ns insert_idr format =
     (fst (SetEvent (m_frameReadyEvent c) w), snd (SetEvent (m_frameReadyEvent c) (w\<lparr>shm := ?r\<rparr>)))"
    using assms by (rule SendFrame_accepts)
  show ?thesis
    unfolding eq
    using SetEvent_refers_to [of "m_frameReadyEvent c" FRAME_READY_EVENT w]
      SetEvent_fails_events [of "m_frameReadyEvent c" w]
    by (simp add: written_region)
qed

theorem SendFrame_writes_then_raises_witness:
  "m_connected attached_client \<and> m_sharedPtr attached_client \<noteq> None
   \<and> unat (3 :: u32) \<le> FRAME_BUFFER_SIZE
   \<and> refers_to (m_frameReadyEvent attached_client) FRAME_READY_EVENT attached_world
   \<and> fst (SendFrame attached_client attached_world (\<lambda>i. 7) 3 1920 1080 7680 1000 True NV12)
   \<and> fh_data_size (frame_header (shm (snd (SendFrame attached_client attached_world
        (\<lambda>i. 7) 3 1920 1080 7680 1000 True NV12)))) = 3
   \<and> fh_insert_idr (frame_header (shm (snd (SendFrame attached_client attached_world
        (\<lambda>i. 7) 3 1920 1080 7680 1000 True NV12)))) = 1
   \<and> fh_pixel_format (frame_header (shm (snd (SendFrame attached_client attached_world
        (\<lambda>i. 7) 3 1920 1080 7680 1000 True NV12)))) = 1
   \<and> map (frame_buffer (shm (snd (SendFrame attached_client attached_world
        (\<lambda>i. 7) 3 1920 1080 7680 1000 True NV12)))) [0, 1, 2, 3] = [7, 7, 7, 0]
   \<and> events (snd (SendFrame attached_client attached_world
        (\<lambda>i. 7) 3 1920 1080 7680 1000 True NV12)) FRAME_READY_EVENT = Some True
   \<and> \<not> fst (SendFrame attached_client stale_world (\<lambda>i. 7) 3 1920 1080 7680 1000 True NV12)
   \<and> fh_data_size (frame_header (shm (snd (SendFrame attached_client stale_world
        (\<lambda>i. 7) 3 1920 1080 7680 1000 True NV12)))) = 3
   \<and> map (frame_buffer (shm (snd (SendFrame attached_client stale_world
        (\<lambda>i. 7) 3 1920 1080 7680 1000 True NV12)))) [0, 1, 2, 3] = [7, 7, 7, 0]"
  using SendFrame_writes_then_raises [of attached_client 3 attached_world "\<lambda>i. 7" 1920 1080 7680
      1000 True NV12]
    SendFrame_writes_then_raises [of attached_client 3 stale_world "\<lambda>i. 7" 1920 1080 7680
      1000 True NV12]
  by (simp add: attached_client_def attached_world_def stale_world_def worker_running_def
      blank_region_def refers_to_def FRAME_BUFFER_SIZE_def SetEvent_def log_def Let_def)

text \<open>Claim C2. A \<open>data_size\<close> strictly above the capacity of the frame buffer makes
  \<open>SendFrame\<close> fail and leaves the whole state outside the client, the shared region
  included, exactly as it was; a \<open>data_size\<close> equal to the capacity passes the check:
  the header then holds it, the whole frame buffer holds the input, and the result is
  that of raising the signal.\<close>

theorem SendFrame_oversize_untouched:
  "(FRAME_BUFFER_SIZE < unat data_size \<longrightarrow>
      SendFrame c w data data_size width height row_pitch timestamp_ns insert_idr format
        = (False, w))
   \<and> (m_connected c \<and> m_sharedPtr c \<noteq> None \<and> unat data_size = FRAME_BUFFER_SIZE \<longrightarrow>
        fh_data_size (frame_header (shm (snd (SendFrame c w data data_size width height
          row_pitch timestamp_ns insert_idr format)))) = data_size
        \<and> (\<forall>i. frame_buffer (shm (snd (SendFrame c w data data_size width height
                 row_pitch timestamp_ns insert_idr format))) i =
               (if i < FRAME_BUFFER_SIZE then data i else frame_buffer (shm w) i))
        \<and> fst (SendFrame c w data data_size width height row_pitch timestamp_ns insert_idr
                 format) = fst (SetEvent (m_frameReadyEvent c) w))"
proof (intro conjI impI)
  assume "FRAME_BUFFER_SIZE < unat data_size"
  then show "SendFrame c w data data_size width height row_pitch timestamp_ns insert_idr format
        = (False, w)"
    by (simp add: SendFrame_rejects)
next
  assume a: "m_connected c \<and> m_sharedPtr c \<noteq> None \<and> unat data_size = FRAME_BUFFER_SIZE"
  have eq: "SendFrame c w data data_size width height row_pitch timestamp_ns insert_idr format =
     (fst (SetEvent (m_frameReadyEvent c) w),
      snd (SetEvent (m_frameReadyEvent c)
        (w\<lparr>shm := copy_frame_data data data_size
            (fill_frame_header width height timestamp_ns insert_idr format row_pitch data_size
               (shm w))\<rparr>)))"
    using a by (intro SendFrame_accepts) simp_all
  show "fh_data_size (frame_header (shm (snd (SendFrame c w data data_size width height
          row_pitch timestamp_ns insert_idr format)))) = data_size"
    by (simp add: eq written_region)
  show "\<forall>i. frame_buffer (shm (snd (SendFrame c w data data_size width height
                 row_pitch timestamp_ns insert_idr format))) i =
               (if i < FRAME_BUFFER_SIZE then data i else frame_buffer (shm w) i)"
    using a by (simp add: eq written_region)
  show "fst (SendFrame c w data data_size width height row_pitch timestamp_ns insert_idr
                 format) = fst (SetEvent (m_frameReadyEvent c) w)"
    by (simp add: eq)
qed

theorem SendFrame_oversize_untouched_witness:
  "FRAME_BUFFER_SIZE < unat (35389441 :: u32)
   \<and> SendFrame attached_client attached_world (\<lambda>i. 7) 35389441 4096 2160 16384 1000 False RGBA
       = (False, attached_world)
   \<and> m_connected attached_client \<and> m_sharedPtr attached_client \<noteq> None
   \<and> unat (35389440 :: u32) = FRAME_BUFFER_SIZE
   \<and> fh_data_size (frame_header (shm (snd (SendFrame attached_client attached_world (\<lambda>i. 7)
        35389440 4096 2160 16384 1000 False RGBA)))) = 35389440
   \<and> frame_buffer (shm (snd (SendFrame attached_client attached_world (\<lambda>i. 7)
        35389440 4096 2160 16384 1000 False RGBA))) 35389439 = 7
   \<and> fst (SendFrame attached_client attached_world (\<lambda>i. 7) 35389440 4096 2160 16384 1000
        False RGBA)"
  using SendFrame_oversize_untouched [of 35389441 attached_client attached_world "\<lambda>i. 7" 4096
      2160 16384 1000 False RGBA]
    SendFrame_oversize_untouched [of 35389440 attached_client attached_world "\<lambda>i. 7" 4096
      2160 16384 1000 False RGBA]
  by (simp add: attached_client_def attached_world_def worker_running_def
      FRAME_BUFFER_SIZE_def SetEvent_def log_def Let_def)

section \<open>\<open>ReceivePacket\<close>\<close>

lemma ReceivePacket_not_connected:
  "\<not> m_connected c \<or> m_sharedPtr c = None \<Longrightarrow>
   ReceivePacket c w packet_data timestamp_ns is_idr timeout_ms =
     (False, packet_data, timestamp_ns, is_idr, w)"
  by (auto simp: ReceivePacket_def)

lemma ReceivePacket_connected:
  assumes "m_connected c" "m_sharedPtr c \<noteq> None"
  shows "ReceivePacket c w packet_data timestamp_ns is_idr timeout_ms =
     (if fst (WaitForSingleObject (m_packetReadyEvent c) timeout_ms w) \<noteq> WAIT_OBJECT_0
         \<or> PACKET_BUFFER_SIZE < unat (ph_size (packet_header (shm w)))
      then (False, packet_data, timestamp_ns, is_idr,
            snd (WaitForSingleObject (m_packetReadyEvent c) timeout_ms w))
      else (True, map (packet_buffer (shm w)) [0..<unat (ph_size (packet_header (shm w)))],
            ph_timestamp_ns (packet_header (shm w)), ph_is_idr (packet_header (shm w)) \<noteq> 0,
            snd (WaitForSingleObject (m_packetReadyEvent c) timeout_ms w)))"
  using assms
  by (cases "m_sharedPtr c")
     (simp_all add: ReceivePacket_def read_shared_def Let_def case_prod_beta)

text \<open>Claim C3. In the connected state \<open>ReceivePacket\<close> makes one wait on the
  packet-ready handle with the given timeout. If the wait does not return
  \<open>WAIT_OBJECT_0\<close> the call fails, the three outputs keep their values, and the
  outcome is the same whatever the shared region holds (it is not read). If the wait is
  satisfied and the header's \<open>size\<close> exceeds the capacity of the packet buffer the call
  fails and the outputs keep their values. Otherwise it succeeds: the output vector is
  exactly the first \<open>size\<close> bytes of the packet buffer, and the timestamp and the IDR
  flag are those of the packet header. The shared region is never modified.\<close>

theorem ReceivePacket_cases:
  assumes "m_connected c" and "m_sharedPtr c \<noteq> None"
  shows "(fst (WaitForSingleObject (m_packetReadyEvent c) timeout_ms w) \<noteq> WAIT_OBJECT_0 \<longrightarrow>
            (\<forall>r. ReceivePacket c (w\<lparr>shm := r\<rparr>) packet_data timestamp_ns is_idr timeout_ms =
                 (False, packet_data, timestamp_ns, is_idr,
                  (snd (WaitForSingleObject (m_packetReadyEvent c) timeout_ms w))\<lparr>shm := r\<rparr>)))
   \<and> (fst (WaitForSingleObject (m_packetReadyEvent c) timeout_ms w) = WAIT_OBJECT_0 \<and>
        PACKET_BUFFER_SIZE < unat (ph_size (packet_header (shm w))) \<longrightarrow>
          ReceivePacket c w packet_data timestamp_ns is_idr timeout_ms =
            (False, packet_data, timestamp_ns, is_idr,
             snd (WaitForSingleObject (m_packetReadyEvent c) timeout_ms w)))
   \<and> (fst (WaitForSingleObject (m_packetReadyEvent c) timeout_ms w) = WAIT_OBJECT_0 \<and>
        unat (ph_size (packet_header (shm w))) \<le> PACKET_BUFFER_SIZE \<longrightarrow>
          ReceivePacket c w packet_data timestamp_ns is_idr timeout_ms =
            (True, map (packet_buffer (shm w)) [0..<unat (ph_size (packet_header (shm w)))],
             ph_timestamp_ns (packet_header (shm w)), ph_is_idr (packet_header (shm w)) \<noteq> 0,
             snd (WaitForSingleObject (m_packetReadyEvent c) timeout_ms w))
          \<and> length (fst (snd (ReceivePacket c w packet_data timestamp_ns is_idr timeout_ms)))
              = unat (ph_size (packet_header (shm w))))
   \<and> shm (snd (snd (snd (snd (ReceivePacket c w packet_data timestamp_ns is_idr timeout_ms)))))
        = shm w
   \<and> trace (snd (snd (snd (snd (ReceivePacket c w packet_data timestamp_ns is_idr
        timeout_ms))))) = trace w @ [WaitForSingleObject_call (m_packetReadyEvent c) timeout_ms]"
  using assms
  by (simp add: ReceivePacket_connected WaitForSingleObject_shm_update)

theorem ReceivePacket_cases_witness:
  "m_connected attached_client \<and> m_sharedPtr attached_client \<noteq> None
   \<and> fst (WaitForSingleObject (m_packetReadyEvent attached_client) 1000 attached_world)
        = WAIT_TIMEOUT
   \<and> fst (ReceivePacket attached_client attached_world [1, 2] 5 True 1000) = False
   \<and> fst (snd (ReceivePacket attached_client attached_world [1, 2] 5 True 1000)) = [1, 2]
   \<and> fst (WaitForSingleObject (m_packetReadyEvent attached_client) 1000 packet_waiting)
        = WAIT_OBJECT_0
   \<and> unat (ph_size (packet_header (shm packet_waiting))) \<le> PACKET_BUFFER_SIZE
   \<and> fst (ReceivePacket attached_client packet_waiting [] 0 False 1000) = True
   \<and> fst (snd (ReceivePacket attached_client packet_waiting [] 0 False 1000)) = [10, 11, 12]
   \<and> fst (snd (snd (ReceivePacket attached_client packet_waiting [] 0 False 1000))) = 1000
   \<and> fst (snd (snd (snd (ReceivePacket attached_client packet_waiting [] 0 False 1000))))
   \<and> fst (WaitForSingleObject (m_packetReadyEvent attached_client) 1000
        (packet_waiting\<lparr>shm := (shm packet_waiting)\<lparr>packet_header :=
           \<lparr>ph_size = 4194305, ph_timestamp_ns = 1000, ph_is_idr = 1\<rparr>\<rparr>\<rparr>)) = WAIT_OBJECT_0
   \<and> PACKET_BUFFER_SIZE < unat (4194305 :: u32)
   \<and> fst (ReceivePacket attached_client
        (packet_waiting\<lparr>shm := (shm packet_waiting)\<lparr>packet_header :=
           \<lparr>ph_size = 4194305, ph_timestamp_ns = 1000, ph_is_idr = 1\<rparr>\<rparr>\<rparr>)
        [1, 2] 5 True 1000) = False
   \<and> fst (snd (ReceivePacket attached_client
        (packet_waiting\<lparr>shm := (shm packet_waiting)\<lparr>packet_header :=
           \<lparr>ph_size = 4194305, ph_timestamp_ns = 1000, ph_is_idr = 1\<rparr>\<rparr>\<rparr>)
        [1, 2] 5 True 1000)) = [1, 2]"
  using ReceivePacket_cases [of attached_client 1000 attached_world "[1, 2]" 5 True]
    ReceivePacket_cases [of attached_client 1000 packet_waiting "[]" 0 False]
    ReceivePacket_cases [of attached_client 1000
        "packet_waiting\<lparr>shm := (shm packet_waiting)\<lparr>packet_header :=
           \<lparr>ph_size = 4194305, ph_timestamp_ns = 1000, ph_is_idr = 1\<rparr>\<rparr>\<rparr>" "[1, 2]" 5 True]
  by (simp add: attached_client_def attached_world_def packet_waiting_def worker_running_def
      blank_region_def PACKET_BUFFER_SIZE_def WaitForSingleObject_def log_def Let_def
      ReceivePacket_def read_shared_def upt_conv_Cons)

section \<open>The round trip through the echoing collaborator\<close>

lemma echo_worker_after_raise:
  assumes "events w FRAME_READY_EVENT = Some True"
    and "fh_shutdown (frame_header (shm w)) = 0"
  shows "shm (echo_worker w) = echo_frame (shm w)"
    and "events (echo_worker w) PACKET_READY_EVENT = Some True"
    and "handles (echo_worker w) = handles w"
  using assms by (simp_all add: echo_worker_def Let_def)

lemma refers_to_handles: "handles w' = handles w \<Longrightarrow> refers_to h e w' = refers_to h e w"
  by (simp add: refers_to_def split: option.splits)

lemma echoed_bytes:
  "map (packet_buffer (echo_frame
      (copy_frame_data data data_size
         (fill_frame_header width height timestamp_ns insert_idr format row_pitch data_size r))))
     [0..<unat data_size] = map data [0..<unat data_size]"
  by (simp add: echo_frame_def written_region memcpy_def)

lemma echoed_header:
  "packet_header (echo_frame
      (copy_frame_data data data_size
         (fill_frame_header width height timestamp_ns insert_idr format row_pitch data_size r))) =
   \<lparr>ph_size = data_size, ph_timestamp_ns = timestamp_ns,
    ph_is_idr = (if insert_idr then 1 else 0)\<rparr>"
  by (simp add: echo_frame_def written_region)

lemma send_then_echo:
  fixes data :: "nat \<Rightarrow> u8" and width height row_pitch :: u32 and timestamp_ns :: u64
    and insert_idr :: bool and format :: PixelFormat
  assumes "m_connected c" "m_sharedPtr c \<noteq> None"
    and "refers_to (m_frameReadyEvent c) FRAME_READY_EVENT w"
    and "unat data_size \<le> FRAME_BUFFER_SIZE"
  defines "sent \<equiv> SendFrame c w data data_size width height row_pitch timestamp_ns
                    insert_idr format"
  shows "fst sent"
    and "shm (echo_worker (snd sent)) = echo_frame
           (copy_frame_data data data_size
             (fill_frame_header width height timestamp_ns insert_idr format row_pitch
                data_size (shm w)))"
    and "events (echo_worker (snd sent)) PACKET_READY_EVENT = Some True"
    and "handles (echo_worker (snd sent)) = handles w"
proof -
  let ?r = "copy_frame_data data data_size
             (fill_frame_header width height timestamp_ns insert_idr format row_pitch
                data_size (shm w))"
  have eq: "sent = (fst (SetEvent (m_frameReadyEvent c) w),
                    snd (SetEvent (m_frameReadyEvent c) (w\<lparr>shm := ?r\<rparr>)))"
    unfolding sent_def using assms(1,2,4) by (rule SendFrame_accepts)
  have raised: "fst (SetEvent (m_frameReadyEvent c) w)"
    and ev: "events (snd (SetEvent (m_frameReadyEvent c) w)) = (events w)(FRAME_READY_EVENT \<mapsto> True)"
    using SetEvent_refers_to [OF assms(3)] by simp_all
  show "fst sent" by (simp add: eq raised)
  have e1: "events (snd sent) FRAME_READY_EVENT = Some True"
    by (simp add: eq ev)
  have s1: "shm (snd sent) = ?r" by (simp add: eq)
  have f1: "fh_shutdown (frame_header (shm (snd sent))) = 0"
    by (simp add: s1 written_region)
  show "shm (echo_worker (snd sent)) = echo_frame ?r"
    using echo_worker_after_raise(1) [OF e1 f1] by (simp add: s1)
  show "events (echo_worker (snd sent)) PACKET_READY_EVENT = Some True"
    by (rule echo_worker_after_raise(2) [OF e1 f1])
  show "handles (echo_worker (snd sent)) = handles w"
    using echo_worker_after_raise(3) [OF e1 f1] by (simp add: eq)
qed

text \<open>Claim C4, as amended. For a connected client whose frame-ready and packet-ready
  handles refer to the events of those names, and a payload of at most
  \<open>PACKET_BUFFER_SIZE\<close> bytes (4 MiB, the capacity of the packet slot, which is smaller
  than the frame slot): \<open>SendFrame\<close> succeeds and, after the collaborator has echoed
  the frame slot, \<open>ReceivePacket\<close> succeeds and returns exactly the bytes sent, as many
  as were sent, the timestamp and the IDR flag. For a payload larger than that, up to
  the capacity of the frame buffer, \<open>SendFrame\<close> still succeeds but \<open>ReceivePacket\<close>
  fails and leaves its outputs unchanged.\<close>

theorem round_trip_within_packet_capacity:
  assumes "m_connected c" and "m_sharedPtr c \<noteq> None"
    and "refers_to (m_frameReadyEvent c) FRAME_READY_EVENT w"
    and "refers_to (m_packetReadyEvent c) PACKET_READY_EVENT w"
    and "unat data_size \<le> FRAME_BUFFER_SIZE"
  shows "fst (SendFrame c w data data_size width height row_pitch timestamp_ns insert_idr format)
   \<and> (unat data_size \<le> PACKET_BUFFER_SIZE \<longrightarrow>
        (\<exists>w'. ReceivePacket c
           (echo_worker (snd (SendFrame c w data data_size width height row_pitch
              timestamp_ns insert_idr format))) packet_data ts idr timeout_ms =
           (True, map data [0..<unat data_size], timestamp_ns, insert_idr, w'))
        \<and> length (map data [0..<unat data_size]) = unat data_size)
   \<and> (PACKET_BUFFER_SIZE < unat data_size \<longrightarrow>
        (\<exists>w'. ReceivePacket c
           (echo_worker (snd (SendFrame c w data data_size width height row_pitch
              timestamp_ns insert_idr format))) packet_data ts idr timeout_ms =
           (False, packet_data, ts, idr, w')))"
proof -
  let ?sent = "SendFrame c w data data_size width height row_pitch timestamp_ns insert_idr format"
  let ?w2 = "echo_worker (snd ?sent)"
  note se = send_then_echo [OF assms(1,2,3,5), where data = data and width = width
      and height = height and row_pitch = row_pitch and timestamp_ns = timestamp_ns
      and insert_idr = insert_idr and format = format]
  have "refers_to (m_packetReadyEvent c) PACKET_READY_EVENT ?w2"
    using assms(4) refers_to_handles [OF se(4)] by simp
  then have wait: "fst (WaitForSingleObject (m_packetReadyEvent c) timeout_ms ?w2) = WAIT_OBJECT_0"
    using WaitForSingleObject_refers_to se(3) by blast
  have sz: "ph_size (packet_header (shm ?w2)) = data_size"
    and tsq: "ph_timestamp_ns (packet_header (shm ?w2)) = timestamp_ns"
    and idrq: "(ph_is_idr (packet_header (shm ?w2)) \<noteq> 0) = insert_idr"
    by (simp_all add: se(2) echoed_header)
  have bytes: "map (packet_buffer (shm ?w2)) [0..<unat data_size] = map data [0..<unat data_size]"
    by (simp only: se(2) echoed_bytes)
  have rp: "ReceivePacket c ?w2 packet_data ts idr timeout_ms =
     (if PACKET_BUFFER_SIZE < unat data_size
      then (False, packet_data, ts, idr,
            snd (WaitForSingleObject (m_packetReadyEvent c) timeout_ms ?w2))
      else (True, map data [0..<unat data_size], timestamp_ns, insert_idr,
            snd (WaitForSingleObject (m_packetReadyEvent c) timeout_ms ?w2)))"
    using bytes by (simp add: ReceivePacket_connected [OF assms(1,2)] wait sz tsq idrq)
  show ?thesis
    using se(1) by (simp add: rp)
qed

theorem round_trip_within_packet_capacity_witness:
  "m_connected attached_client \<and> m_sharedPtr attached_client \<noteq> None
   \<and> refers_to (m_frameReadyEvent attached_client) FRAME_READY_EVENT attached_world
   \<and> refers_to (m_packetReadyEvent attached_client) PACKET_READY_EVENT attached_world
   \<and> unat (3 :: u32) \<le> FRAME_BUFFER_SIZE \<and> unat (3 :: u32) \<le> PACKET_BUFFER_SIZE
   \<and> fst (SendFrame attached_client attached_world (\<lambda>i. 10 + of_nat i) 3 1920 1080 7680 1000
        True RGBA)
   \<and> fst (ReceivePacket attached_client
        (echo_worker (snd (SendFrame attached_client attached_world (\<lambda>i. 10 + of_nat i) 3
           1920 1080 7680 1000 True RGBA))) [] 0 False 1000)
   \<and> fst (snd (ReceivePacket attached_client
        (echo_worker (snd (SendFrame attached_client attached_world (\<lambda>i. 10 + of_nat i) 3
           1920 1080 7680 1000 True RGBA))) [] 0 False 1000)) = [10, 11, 12]
   \<and> fst (snd (snd (ReceivePacket attached_client
        (echo_worker (snd (SendFrame attached_client attached_world (\<lambda>i. 10 + of_nat i) 3
           1920 1080 7680 1000 True RGBA))) [] 0 False 1000))) = 1000
   \<and> fst (snd (snd (snd (ReceivePacket attached_client
        (echo_worker (snd (SendFrame attached_client attached_world (\<lambda>i. 10 + of_nat i) 3
           1920 1080 7680 1000 True RGBA))) [] 0 False 1000))))"
proof -
  have h: "m_connected attached_client" "m_sharedPtr attached_client \<noteq> None"
    "refers_to (m_frameReadyEvent attached_client) FRAME_READY_EVENT attached_world"
    "refers_to (m_packetReadyEvent attached_client) PACKET_READY_EVENT attached_world"
    "unat (3 :: u32) \<le> FRAME_BUFFER_SIZE"
    by (simp_all add: attached_client_def attached_world_def refers_to_def
        FRAME_BUFFER_SIZE_def)
  have p: "unat (3 :: u32) \<le> PACKET_BUFFER_SIZE"
    by (simp add: PACKET_BUFFER_SIZE_def)
  show ?thesis
    using h p round_trip_within_packet_capacity [OF h, of "\<lambda>i. 10 + of_nat i" 1920 1080 7680
        1000 True RGBA "[]" 0 False 1000]
    by (auto simp: upt_conv_Cons)
qed

text \<open>Claim C4 as stated fails at the upper boundary sizes: a payload of the full
  capacity of the frame buffer, or one byte less, is accepted by \<open>SendFrame\<close>, but after
  the echo \<open>ReceivePacket\<close> rejects it and returns no bytes.\<close>

theorem round_trip_fails_at_frame_capacity:
  "unat (35389440 :: u32) = FRAME_BUFFER_SIZE
   \<and> fst (SendFrame attached_client attached_world (\<lambda>i. 7) 35389440 4096 2160 16384 1000
        True RGBA)
   \<and> \<not> fst (ReceivePacket attached_client
        (echo_worker (snd (SendFrame attached_client attached_world (\<lambda>i. 7) 35389440
           4096 2160 16384 1000 True RGBA))) [] 0 False 1000)
   \<and> fst (snd (ReceivePacket attached_client
        (echo_worker (snd (SendFrame attached_client attached_world (\<lambda>i. 7) 35389440
           4096 2160 16384 1000 True RGBA))) [] 0 False 1000)) = []
   \<and> unat (35389439 :: u32) = FRAME_BUFFER_SIZE - 1
   \<and> fst (SendFrame attached_client attached_world (\<lambda>i. 7) 35389439 4096 2160 16384 1000
        True RGBA)
   \<and> \<not> fst (ReceivePacket attached_client
        (echo_worker (snd (SendFrame attached_client attached_world (\<lambda>i. 7) 35389439
           4096 2160 16384 1000 True RGBA))) [] 0 False 1000)"
  by (simp add: attached_client_def attached_world_def worker_running_def blank_region_def
      FRAME_BUFFER_SIZE_def PACKET_BUFFER_SIZE_def SendFrame_def ReceivePacket_def
      echo_worker_def echo_frame_def write_shared_def read_shared_def SetEvent_def
      WaitForSingleObject_def log_def Let_def fill_frame_header_def copy_frame_data_def)

lemma Initialize_worker_installed:
  "Initialize EncoderIpcClient_new worker_installed 1920 1080 ''h264'' =
     (True, launched_client, launched_world)"
  by (simp add: Initialize_def open_or_launch_def map_and_handshake_def
      LaunchEncoderProcess_def GetModuleFileNameW_def exists_path_def CreateProcessW_def
      CloseHandle_def Sleep_def poll_shared_memory.simps parent_path_def path_append_def
      OpenFileMappingW_def MapViewOfFile_def OpenEventW_def WaitForEncoderReady_def
      WaitForSingleObject_def alloc_def log_def EncoderIpcClient_new_def worker_installed_def
      worker_running_def launched_client_def launched_world_def fun_eq_iff Let_def)

section \<open>\<open>Shutdown\<close>\<close>

lemma close_if_trace:
  "trace (close_if h w) = trace w @ (case h of None \<Rightarrow> [] | Some n \<Rightarrow> [CloseHandle_call n])"
  by (simp add: close_if_def split: option.splits)

lemma close_if_handles:
  "handles (close_if h w) n = (if h = Some n then None else handles w n)"
  by (simp add: close_if_def split: option.splits)

lemma write_shared_frame [simp]:
  "events (write_shared p f w) = events w"
  "handles (write_shared p f w) = handles w"
  "views (write_shared p f w) = views w"
  "trace (write_shared p f w) = trace w"
  by (simp_all add: write_shared_def split: option.splits)

lemma write_shared_Some [simp]: "write_shared (Some p) f w = w\<lparr>shm := f (shm w)\<rparr>"
  by (simp add: write_shared_def)

text \<open>The state of the world after \<open>Shutdown\<close>, field by field.\<close>

lemma Shutdown_client:
  "fst (Shutdown c w) =
     c\<lparr>m_sharedPtr := None, m_sharedMemory := None, m_frameReadyEvent := None,
       m_packetReadyEvent := None, m_encoderReadyEvent := None, m_encoderProcess := None,
       m_connected := False\<rparr>"
  by (simp add: Shutdown_def Let_def)

lemma Shutdown_all_released: "all_released (fst (Shutdown c w))"
  by (simp add: Shutdown_client all_released_def)

lemma Shutdown_shm:
  "shm (snd (Shutdown c w)) =
     (if m_sharedPtr c \<noteq> None \<and> m_connected c then set_shutdown (shm w) else shm w)"
  by (cases "m_sharedPtr c"; cases "m_encoderProcess c") (simp_all add: Shutdown_def Let_def)

lemma Shutdown_faulted: "faulted (snd (Shutdown c w)) = faulted w"
  by (cases "m_sharedPtr c"; cases "m_encoderProcess c") (simp_all add: Shutdown_def Let_def)

lemma Shutdown_trace:
  "trace (snd (Shutdown c w)) =
     trace w
     @ (if m_sharedPtr c \<noteq> None \<and> m_connected c \<and> m_frameReadyEvent c \<noteq> None
        then [SetEvent_call (m_frameReadyEvent c)] else [])
     @ (case m_sharedPtr c of None \<Rightarrow> [] | Some p \<Rightarrow> [UnmapViewOfFile_call p])
     @ (case m_sharedMemory c of None \<Rightarrow> [] | Some n \<Rightarrow> [CloseHandle_call n])
     @ (case m_frameReadyEvent c of None \<Rightarrow> [] | Some n \<Rightarrow> [CloseHandle_call n])
     @ (case m_packetReadyEvent c of None \<Rightarrow> [] | Some n \<Rightarrow> [CloseHandle_call n])
     @ (case m_encoderReadyEvent c of None \<Rightarrow> [] | Some n \<Rightarrow> [CloseHandle_call n])
     @ (case m_encoderProcess c of None \<Rightarrow> []
        | Some n \<Rightarrow> [WaitForSingleObject_call (Some n) 3000, CloseHandle_call n])"
  by (cases "m_sharedPtr c"; cases "m_encoderProcess c")
     (simp_all add: Shutdown_def Let_def close_if_trace)

lemma Shutdown_handles:
  "handles (snd (Shutdown c w)) n =
     (if Some n = m_sharedMemory c \<or> Some n = m_frameReadyEvent c \<or>
         Some n = m_packetReadyEvent c \<or> Some n = m_encoderReadyEvent c \<or>
         Some n = m_encoderProcess c
      then None else handles w n)"
  by (cases "m_sharedPtr c"; cases "m_encoderProcess c")
     (auto simp: Shutdown_def Let_def close_if_handles)

lemma Shutdown_views:
  "views (snd (Shutdown c w)) =
     (case m_sharedPtr c of None \<Rightarrow> views w | Some p \<Rightarrow> views w - {p})"
  by (cases "m_sharedPtr c"; cases "m_encoderProcess c") (simp_all add: Shutdown_def Let_def)

lemma Shutdown_events_raise:
  assumes "m_connected c" "m_sharedPtr c \<noteq> None"
    and "refers_to (m_frameReadyEvent c) FRAME_READY_EVENT w"
    and "\<forall>n. m_encoderProcess c = Some n \<longrightarrow> handles w n = Some KProcess"
  shows "events (snd (Shutdown c w)) = (events w)(FRAME_READY_EVENT \<mapsto> True)"
proof -
  obtain p where p: "m_sharedPtr c = Some p" using assms(2) by auto
  obtain f where f: "m_frameReadyEvent c = Some f" "handles w f = Some (KEvent FRAME_READY_EVENT)"
    using assms(3) by (auto simp: refers_to_def split: option.splits)
  have r: "refers_to (m_frameReadyEvent c) FRAME_READY_EVENT (w\<lparr>shm := set_shutdown (shm w)\<rparr>)"
    using assms(3) by (simp add: refers_to_def split: option.splits)
  show ?thesis
  proof (cases "m_encoderProcess c")
    case None
    then show ?thesis
      using p f assms(1) SetEvent_refers_to [OF r]
      by (simp add: Shutdown_def Let_def)
  next
    case (Some n)
    then have "handles w n = Some KProcess" using assms(4) by simp
    then show ?thesis
      using Some p f assms(1) SetEvent_refers_to [OF r]
      by (auto simp: Shutdown_def Let_def WaitForSingleObject_def log_def close_if_handles
          split: option.splits)
  qed
qed

lemma Shutdown_released_noop: "all_released c \<Longrightarrow> Shutdown c w = (c, w)"
  by (simp add: Shutdown_def all_released_def Let_def)

text \<open>Claim C5. \<open>Shutdown\<close> is defined on every state of the client and of the world
  and never faults. On return the client holds nothing and is not connected; every
  handle it held is closed, the view it had mapped is unmapped, and the system calls it
  made are exactly: the raise of frame-ready (only when the client was connected with a
  mapped region and has a frame-ready handle), the unmapping, the closing of the
  mapping handle and of the three event handles, and for the process handle one wait
  of 3000 ms followed by its closing. The shutdown flag is written exactly when the
  client was connected with a mapped region, and nothing else in the region changes. A
  second call in a row changes nothing.\<close>

theorem Shutdown_releases_everything:
  "all_released (fst (Shutdown c w))
   \<and> (\<forall>n. Some n = m_sharedMemory c \<or> Some n = m_frameReadyEvent c \<or>
          Some n = m_packetReadyEvent c \<or> Some n = m_encoderReadyEvent c \<or>
          Some n = m_encoderProcess c \<longrightarrow> handles (snd (Shutdown c w)) n = None)
   \<and> (\<forall>p. m_sharedPtr c = Some p \<longrightarrow> p \<notin> views (snd (Shutdown c w)))
   \<and> trace (snd (Shutdown c w)) =
       trace w
       @ (if m_sharedPtr c \<noteq> None \<and> m_connected c \<and> m_frameReadyEvent c \<noteq> None
          then [SetEvent_call (m_frameReadyEvent c)] else [])
       @ (case m_sharedPtr c of None \<Rightarrow> [] | Some p \<Rightarrow> [UnmapViewOfFile_call p])
       @ (case m_sharedMemory c of None \<Rightarrow> [] | Some n \<Rightarrow> [CloseHandle_call n])
       @ (case m_frameReadyEvent c of None \<Rightarrow> [] | Some n \<Rightarrow> [CloseHandle_call n])
       @ (case m_packetReadyEvent c of None \<Rightarrow> [] | Some n \<Rightarrow> [CloseHandle_call n])
       @ (case m_encoderReadyEvent c of None \<Rightarrow> [] | Some n \<Rightarrow> [CloseHandle_call n])
       @ (case m_encoderProcess c of None \<Rightarrow> []
          | Some n \<Rightarrow> [WaitForSingleObject_call (Some n) 3000, CloseHandle_call n])
   \<and> shm (snd (Shutdown c w)) =
       (if m_sharedPtr c \<noteq> None \<and> m_connected c then set_shutdown (shm w) else shm w)
   \<and> fh_shutdown (frame_header (set_shutdown (shm w))) = 1
   \<and> faulted (snd (Shutdown c w)) = faulted w
   \<and> Shutdown (fst (Shutdown c w)) (snd (Shutdown c w)) = Shutdown c w"
proof -
  have "Shutdown (fst (Shutdown c w)) (snd (Shutdown c w)) = Shutdown c w"
    using Shutdown_released_noop [OF Shutdown_all_released, of c w "snd (Shutdown c w)"]
    by simp
  moreover have "\<forall>p. m_sharedPtr c = Some p \<longrightarrow> p \<notin> views (snd (Shutdown c w))"
    by (simp add: Shutdown_views)
  ultimately show ?thesis
    by (simp add: Shutdown_all_released Shutdown_handles Shutdown_trace Shutdown_shm
        Shutdown_faulted set_shutdown_def)
qed

theorem Shutdown_releases_everything_witness:
  "all_released (fst (Shutdown launched_client launched_world))
   \<and> map (handles launched_world) [1, 3, 5, 6, 7] =
       [Some KProcess, Some KMapping, Some (KEvent FRAME_READY_EVENT),
        Some (KEvent PACKET_READY_EVENT), Some (KEvent ENCODER_READY_EVENT)]
   \<and> map (handles (snd (Shutdown launched_client launched_world))) [1, 3, 5, 6, 7] =
       [None, None, None, None, None]
   \<and> 4 \<in> views launched_world \<and> 4 \<notin> views (snd (Shutdown launched_client launched_world))
   \<and> trace (snd (Shutdown launched_client launched_world)) =
       trace launched_world @
       [SetEvent_call (Some 5), UnmapViewOfFile_call 4, CloseHandle_call 3, CloseHandle_call 5,
        CloseHandle_call 6, CloseHandle_call 7, WaitForSingleObject_call (Some 1) 3000,
        CloseHandle_call 1]
   \<and> fh_shutdown (frame_header (shm launched_world)) = 0
   \<and> fh_shutdown (frame_header (shm (snd (Shutdown launched_client launched_world)))) = 1
   \<and> Shutdown (fst (Shutdown launched_client launched_world))
        (snd (Shutdown launched_client launched_world)) =
      Shutdown launched_client launched_world
   \<and> all_released EncoderIpcClient_new
   \<and> Shutdown EncoderIpcClient_new worker_running = (EncoderIpcClient_new, worker_running)"
  using Shutdown_releases_everything [of launched_client launched_world]
    Shutdown_releases_everything [of EncoderIpcClient_new worker_running]
    Shutdown_released_noop [of EncoderIpcClient_new worker_running]
  by (simp add: launched_client_def launched_world_def worker_installed_def worker_running_def
      blank_region_def set_shutdown_def all_released_def EncoderIpcClient_new_def)

section \<open>\<open>Initialize\<close>: mapping the region and the readiness handshake\<close>



lemma WaitForEncoderReady_not_raised:
  assumes "m_encoderReadyEvent c = Some h" "handles w h = Some (KEvent ENCODER_READY_EVENT)"
    and "events w ENCODER_READY_EVENT \<noteq> Some True"
  shows "WaitForEncoderReady c t w = (False, w\<lparr>trace := trace w @ [WaitForSingleObject_call (Some h) t]\<rparr>)"
  using assms by (simp add: WaitForEncoderReady_def WaitForSingleObject_def log_def Let_def)

lemma WaitForEncoderReady_raised:
  assumes "m_encoderReadyEvent c = Some h" "handles w h = Some (KEvent ENCODER_READY_EVENT)"
    and "events w ENCODER_READY_EVENT = Some True"
  shows "WaitForEncoderReady c t w =
     (True, w\<lparr>events := (events w)(ENCODER_READY_EVENT \<mapsto> False),
              trace := trace w @ [WaitForSingleObject_call (Some h) t]\<rparr>)"
  using assms by (simp add: WaitForEncoderReady_def WaitForSingleObject_def log_def Let_def)


section \<open>\<open>Initialize\<close>: attaching to the region or launching the worker\<close>

lemma OpenFileMappingW_result:
  "fst (OpenFileMappingW w) = (if region_absent_for 1 w then None else Some (next_id w))"
  by (cases "mapping_visible w")
     (simp_all add: OpenFileMappingW_def region_absent_for_def alloc_def log_def Let_def)

lemma OpenFileMappingW_frame [simp]:
  "trace (snd (OpenFileMappingW w)) = trace w @ [OpenFileMappingW_call]"
  "mapping_visible (snd (OpenFileMappingW w)) = tl (mapping_visible w)"
  "shm (snd (OpenFileMappingW w)) = shm w"
  "events (snd (OpenFileMappingW w)) = events w"
  "views (snd (OpenFileMappingW w)) = views w"
  "files (snd (OpenFileMappingW w)) = files w"
  "spawn_ok (snd (OpenFileMappingW w)) = spawn_ok w"
  "module_path (snd (OpenFileMappingW w)) = module_path w"
  by (cases "mapping_visible w";
      simp add: OpenFileMappingW_def alloc_def log_def Let_def)+


lemma OpenFileMappingW_next_id:
  "next_id (snd (OpenFileMappingW w)) =
     (if region_absent_for 1 w then next_id w else Suc (next_id w))"
  by (cases "mapping_visible w")
     (simp_all add: OpenFileMappingW_def region_absent_for_def alloc_def log_def Let_def)

lemma Sleep_frame [simp]:
  "trace (Sleep ms w) = trace w @ [Sleep_call ms]"
  "mapping_visible (Sleep ms w) = mapping_visible w"
  "shm (Sleep ms w) = shm w"
  "events (Sleep ms w) = events w"
  "views (Sleep ms w) = views w"
  "handles (Sleep ms w) = handles w"
  "next_id (Sleep ms w) = next_id w"
  "files (Sleep ms w) = files w"
  "spawn_ok (Sleep ms w) = spawn_ok w"
  "module_path (Sleep ms w) = module_path w"
  by (simp_all add: Sleep_def log_def)

lemma region_absent_for_Sleep [simp]: "region_absent_for k (Sleep ms w) = region_absent_for k w"
  by (simp add: region_absent_for_def)

lemma poll_shared_memory_frame:
  "shm (snd (poll_shared_memory i w)) = shm w"
  "events (snd (poll_shared_memory i w)) = events w"
  "views (snd (poll_shared_memory i w)) = views w"
  "files (snd (poll_shared_memory i w)) = files w"
proof (induction i w rule: poll_shared_memory.induct)
  case (1 i w)
  {
    case 1
    show ?case
    proof (cases "i < 50 \<and> fst (OpenFileMappingW (Sleep 100 w)) = None")
      case True
      then show ?thesis
        using "1.IH"(1) [of "OpenFileMappingW (Sleep 100 w)" None "snd (OpenFileMappingW (Sleep 100 w))"]
        by (simp add: poll_shared_memory.simps [of i w] case_prod_beta prod_eq_iff)
    next
      case False
      then show ?thesis
        by (auto simp: poll_shared_memory.simps [of i w] case_prod_beta)
    qed
  next
    case 2
    show ?case
    proof (cases "i < 50 \<and> fst (OpenFileMappingW (Sleep 100 w)) = None")
      case True
      then show ?thesis
        using "1.IH"(2) [of "OpenFileMappingW (Sleep 100 w)" None "snd (OpenFileMappingW (Sleep 100 w))"]
        by (simp add: poll_shared_memory.simps [of i w] case_prod_beta prod_eq_iff)
    next
      case False
      then show ?thesis
        by (auto simp: poll_shared_memory.simps [of i w] case_prod_beta)
    qed
  next
    case 3
    show ?case
    proof (cases "i < 50 \<and> fst (OpenFileMappingW (Sleep 100 w)) = None")
      case True
      then show ?thesis
        using "1.IH"(3) [of "OpenFileMappingW (Sleep 100 w)" None "snd (OpenFileMappingW (Sleep 100 w))"]
        by (simp add: poll_shared_memory.simps [of i w] case_prod_beta prod_eq_iff)
    next
      case False
      then show ?thesis
        by (auto simp: poll_shared_memory.simps [of i w] case_prod_beta)
    qed
  next
    case 4
    show ?case
    proof (cases "i < 50 \<and> fst (OpenFileMappingW (Sleep 100 w)) = None")
      case True
      then show ?thesis
        using "1.IH"(4) [of "OpenFileMappingW (Sleep 100 w)" None "snd (OpenFileMappingW (Sleep 100 w))"]
        by (simp add: poll_shared_memory.simps [of i w] case_prod_beta prod_eq_iff)
    next
      case False
      then show ?thesis
        by (auto simp: poll_shared_memory.simps [of i w] case_prod_beta)
    qed
  }
qed


lemma LaunchEncoderProcess_result:
  "fst (LaunchEncoderProcess c w) = (files w (encoderPath w) \<and> spawn_ok w)"
  "fst (snd (LaunchEncoderProcess c w)) =
     (if files w (encoderPath w) \<and> spawn_ok w then c\<lparr>m_encoderProcess := Some (next_id w)\<rparr>
      else c)"
  "trace (snd (snd (LaunchEncoderProcess c w))) =
     trace w @ [GetModuleFileNameW_call, exists_call (encoderPath w)]
     @ (if files w (encoderPath w)
        then [CreateProcessW_call (cmdLine (encoderPath w) (m_width c) (m_height c) (m_codec c))]
        else [])
     @ (if files w (encoderPath w) \<and> spawn_ok w then [CloseHandle_call (Suc (next_id w))]
        else [])"
  "handles (snd (snd (LaunchEncoderProcess c w))) n =
     (if files w (encoderPath w) \<and> spawn_ok w
      then (if n = next_id w then Some KProcess
            else if n = Suc (next_id w) then None else handles w n)
      else handles w n)"
  by (simp_all add: LaunchEncoderProcess_def GetModuleFileNameW_def exists_path_def
      CreateProcessW_def CloseHandle_def alloc_def log_def encoderPath_def Let_def)

lemma LaunchEncoderProcess_frame [simp]:
  "shm (snd (snd (LaunchEncoderProcess c w))) = shm w"
  "events (snd (snd (LaunchEncoderProcess c w))) = events w"
  "views (snd (snd (LaunchEncoderProcess c w))) = views w"
  "mapping_visible (snd (snd (LaunchEncoderProcess c w))) = mapping_visible w"
  by (simp_all add: LaunchEncoderProcess_def GetModuleFileNameW_def exists_path_def
      CreateProcessW_def CloseHandle_def alloc_def log_def encoderPath_def Let_def)

lemma open_or_launch_present:
  assumes "\<not> region_absent_for 1 w"
  shows "open_or_launch c w =
     (True, c\<lparr>m_sharedMemory := Some (next_id w)\<rparr>, snd (OpenFileMappingW w))"
  using assms by (simp add: open_or_launch_def case_prod_beta OpenFileMappingW_result Let_def)

lemma open_or_launch_absent:
  assumes "region_absent_for 1 w"
  shows "open_or_launch c w =
     (if \<not> fst (LaunchEncoderProcess (c\<lparr>m_sharedMemory := None\<rparr>) (snd (OpenFileMappingW w)))
      then (False, snd (LaunchEncoderProcess (c\<lparr>m_sharedMemory := None\<rparr>)
                          (snd (OpenFileMappingW w))))
      else (fst (poll_shared_memory 0
                   (snd (snd (LaunchEncoderProcess (c\<lparr>m_sharedMemory := None\<rparr>)
                      (snd (OpenFileMappingW w)))))) \<noteq> None,
            (fst (snd (LaunchEncoderProcess (c\<lparr>m_sharedMemory := None\<rparr>)
                  (snd (OpenFileMappingW w)))))
              \<lparr>m_sharedMemory := fst (poll_shared_memory 0
                   (snd (snd (LaunchEncoderProcess (c\<lparr>m_sharedMemory := None\<rparr>)
                      (snd (OpenFileMappingW w))))))\<rparr>,
            snd (poll_shared_memory 0
                   (snd (snd (LaunchEncoderProcess (c\<lparr>m_sharedMemory := None\<rparr>)
                      (snd (OpenFileMappingW w))))))))"
  using assms
  by (auto simp: open_or_launch_def case_prod_beta OpenFileMappingW_result Let_def)





lemma MapViewOfFile_trace [simp]:
  "trace (snd (MapViewOfFile h w)) = trace w @ [MapViewOfFile_call h]"
  by (simp add: MapViewOfFile_def log_def Let_def
      split: option.splits kobj.splits list.splits)

lemma OpenEventW_trace [simp]:
  "trace (snd (OpenEventW e w)) = trace w @ [OpenEventW_call e]"
  by (simp add: OpenEventW_def alloc_def log_def Let_def split: option.splits)

lemma WaitForEncoderReady_trace:
  "trace (snd (WaitForEncoderReady c t w)) =
     trace w @ (if m_encoderReadyEvent c = None then []
                else [WaitForSingleObject_call (m_encoderReadyEvent c) t])"
  by (simp add: WaitForEncoderReady_def case_prod_beta)

text \<open>Once attached, \<open>Initialize\<close> maps the view first and polls no more.\<close>

lemma Shutdown_trace_no_poll:
  assumes "trace w = t @ x # pre" and "filter is_poll_call pre = []"
  shows "\<exists>rest. trace (snd (Shutdown c w)) = t @ x # rest \<and> filter is_poll_call rest = []"
  using assms by (simp add: Shutdown_trace split: option.splits)

lemma map_and_handshake_trace:
  "\<exists>rest. trace (snd (snd (map_and_handshake c w))) =
            trace w @ MapViewOfFile_call (m_sharedMemory c) # rest
        \<and> filter is_poll_call rest = []"
proof (cases "fst (MapViewOfFile (m_sharedMemory c) w)")
  case None
  then show ?thesis
    by (simp add: map_and_handshake_def Let_def case_prod_beta close_if_trace
        split: option.splits)
next
  case (Some p)
  let ?w1 = "snd (MapViewOfFile (m_sharedMemory c) w)"
  let ?w2 = "snd (OpenEventW FRAME_READY_EVENT ?w1)"
  let ?w3 = "snd (OpenEventW PACKET_READY_EVENT ?w2)"
  let ?w4 = "snd (OpenEventW ENCODER_READY_EVENT ?w3)"
  let ?c2 = "c\<lparr>m_sharedPtr := Some p,
      m_frameReadyEvent := fst (OpenEventW FRAME_READY_EVENT ?w1),
      m_packetReadyEvent := fst (OpenEventW PACKET_READY_EVENT ?w2),
      m_encoderReadyEvent := fst (OpenEventW ENCODER_READY_EVENT ?w3)\<rparr>"
  let ?w5 = "snd (WaitForEncoderReady ?c2 5000 ?w4)"
  let ?pre = "[OpenEventW_call FRAME_READY_EVENT, OpenEventW_call PACKET_READY_EVENT,
      OpenEventW_call ENCODER_READY_EVENT]"
  have t4: "trace ?w4 = trace w @ MapViewOfFile_call (m_sharedMemory c) # ?pre"
    by simp
  have t5: "trace ?w5 = trace w @ MapViewOfFile_call (m_sharedMemory c) #
      (?pre @ (if m_encoderReadyEvent ?c2 = None then []
          else [WaitForSingleObject_call (m_encoderReadyEvent ?c2) 5000]))"
    by (simp add: WaitForEncoderReady_trace)
  have s4: "\<exists>rest. trace (snd (Shutdown ?c2 ?w4)) =
      trace w @ MapViewOfFile_call (m_sharedMemory c) # rest \<and> filter is_poll_call rest = []"
    by (rule Shutdown_trace_no_poll [OF t4]) simp
  have s5: "\<exists>rest. trace (snd (Shutdown ?c2 ?w5)) =
      trace w @ MapViewOfFile_call (m_sharedMemory c) # rest \<and> filter is_poll_call rest = []"
    by (rule Shutdown_trace_no_poll [OF t5]) simp
  have w5: "\<exists>rest. trace ?w5 =
      trace w @ MapViewOfFile_call (m_sharedMemory c) # rest \<and> filter is_poll_call rest = []"
    unfolding t5 by simp
  have "snd (snd (map_and_handshake c w)) = snd (Shutdown ?c2 ?w4)
      \<or> snd (snd (map_and_handshake c w)) = snd (Shutdown ?c2 ?w5)
      \<or> snd (snd (map_and_handshake c w)) = ?w5"
    using Some by (simp add: map_and_handshake_def Let_def case_prod_beta)
  then show ?thesis
    using s4 s5 w5 by metis
qed

text \<open>The command line of the worker: the path, the width and the height in decimal,
  and the codec name converted character by character.\<close>

lemma example_cmdLine:
  "cmdLine (map wide [''C:'', ''ALVR'', ''bin'', ''alvr_encoder_arm64.exe'']) 1920 1080 ''h264'' =
     wide ''C:'' @ [0x5C] @ wide ''ALVR'' @ [0x5C] @ wide ''bin'' @ [0x5C]
       @ wide ''alvr_encoder_arm64.exe 1920 1080 h264''"
  by (simp add: cmdLine_def to_wstring.simps digit_wchar_def wide_def wchar_of_char_def)

lemma example_wchar_of_char:
  "map wchar_of_char [CHR ''h'', CHR 0x7F, CHR 0x80, CHR 0xE9] = [0x68, 0x7F, 0xFF80, 0xFFE9]"
  by (simp add: wchar_of_char_def)

lemma OpenFileMappingW_exact:
  "OpenFileMappingW w =
     (if region_absent_for 1 w
      then (None, w\<lparr>mapping_visible := tl (mapping_visible w),
                     trace := trace w @ [OpenFileMappingW_call]\<rparr>)
      else (Some (next_id w),
            w\<lparr>mapping_visible := tl (mapping_visible w),
              handles := (handles w)(next_id w \<mapsto> KMapping), next_id := Suc (next_id w),
              trace := trace w @ [OpenFileMappingW_call]\<rparr>))"
  by (cases "mapping_visible w")
     (simp_all add: OpenFileMappingW_def region_absent_for_def alloc_def log_def Let_def)

lemma LaunchEncoderProcess_exact:
  "LaunchEncoderProcess c w =
     (if \<not> files w (encoderPath w)
      then (False, c,
            w\<lparr>trace := trace w @ [GetModuleFileNameW_call, exists_call (encoderPath w)]\<rparr>)
      else if \<not> spawn_ok w
      then (False, c,
            w\<lparr>trace := trace w @ [GetModuleFileNameW_call, exists_call (encoderPath w),
                CreateProcessW_call (cmdLine (encoderPath w) (m_width c) (m_height c)
                  (m_codec c))]\<rparr>)
      else (True, c\<lparr>m_encoderProcess := Some (next_id w)\<rparr>,
            w\<lparr>handles := (handles w)(next_id w \<mapsto> KProcess, Suc (next_id w) := None),
              next_id := Suc (Suc (next_id w)),
              trace := trace w @ [GetModuleFileNameW_call, exists_call (encoderPath w),
                CreateProcessW_call (cmdLine (encoderPath w) (m_width c) (m_height c)
                  (m_codec c)),
                CloseHandle_call (Suc (next_id w))]\<rparr>))"
  by (simp add: LaunchEncoderProcess_def GetModuleFileNameW_def exists_path_def
      CreateProcessW_def CloseHandle_def alloc_def log_def encoderPath_def Let_def)

text \<open>The polling loop, exactly. With \<open>k\<close> the number of attempts at which the mapping
  is still absent before it appears: when it appears within the attempts that are left,
  the loop ends after \<open>k + 1\<close> rounds with the handle; otherwise it runs all the rounds
  that are left and ends without one. A round is a sleep of 100 ms followed by one
  attempt to open the mapping.\<close>

lemma poll_shared_memory_fuel:
  "50 - i = n \<Longrightarrow>
   poll_shared_memory i w =
     (if length (takeWhile Not (mapping_visible w)) < length (mapping_visible w) \<and>
         length (takeWhile Not (mapping_visible w)) < n
      then (Some (next_id w),
            w\<lparr>mapping_visible :=
                drop (Suc (length (takeWhile Not (mapping_visible w)))) (mapping_visible w),
              handles := (handles w)(next_id w \<mapsto> KMapping), next_id := Suc (next_id w),
              trace := trace w @ concat (replicate
                (Suc (length (takeWhile Not (mapping_visible w))))
                [Sleep_call 100, OpenFileMappingW_call])\<rparr>)
      else (None,
            w\<lparr>mapping_visible := drop n (mapping_visible w),
              trace := trace w @ concat (replicate n
                [Sleep_call 100, OpenFileMappingW_call])\<rparr>))"
proof (induction n arbitrary: i w)
  case 0
  then have "\<not> i < 50" by simp
  then show ?case
    by (simp add: poll_shared_memory.simps [of i w])
next
  case (Suc n)
  then have i: "i < 50" and n: "50 - Suc i = n" by simp_all
  show ?case
  proof (cases "mapping_visible w")
    case Nil
    have o: "OpenFileMappingW (Sleep 100 w) =
        (None, w\<lparr>trace := trace w @ [Sleep_call 100, OpenFileMappingW_call]\<rparr>)"
      using Nil by (simp add: OpenFileMappingW_def Sleep_def log_def)
    have rec: "poll_shared_memory i w = poll_shared_memory (Suc i)
        (w\<lparr>trace := trace w @ [Sleep_call 100, OpenFileMappingW_call]\<rparr>)"
      using i by (simp add: poll_shared_memory.simps [of i w] o)
    show ?thesis
      unfolding rec using Nil
      by (simp add: Suc.IH [OF n])
  next
    case (Cons b bs)
    show ?thesis
    proof (cases b)
      case True
      have o: "OpenFileMappingW (Sleep 100 w) =
        (Some (next_id w),
         w\<lparr>mapping_visible := bs, handles := (handles w)(next_id w \<mapsto> KMapping),
           next_id := Suc (next_id w),
           trace := trace w @ [Sleep_call 100, OpenFileMappingW_call]\<rparr>)"
        using Cons True by (simp add: OpenFileMappingW_def Sleep_def alloc_def log_def Let_def)
      show ?thesis
        using i Cons True
        by (simp add: poll_shared_memory.simps [of i w] o)
    next
      case False
      have o: "OpenFileMappingW (Sleep 100 w) =
        (None, w\<lparr>mapping_visible := bs,
                  trace := trace w @ [Sleep_call 100, OpenFileMappingW_call]\<rparr>)"
        using Cons False by (simp add: OpenFileMappingW_def Sleep_def log_def Let_def)
      have rec: "poll_shared_memory i w = poll_shared_memory (Suc i)
          (w\<lparr>mapping_visible := bs,
             trace := trace w @ [Sleep_call 100, OpenFileMappingW_call]\<rparr>)"
        using i by (simp add: poll_shared_memory.simps [of i w] o)
      show ?thesis
        unfolding rec using Cons False
        by (simp add: Suc.IH [OF n] fun_upd_def)
    qed
  qed
qed

lemma poll_shared_memory_exact:
  "poll_shared_memory 0 w =
     (if length (takeWhile Not (mapping_visible w)) < length (mapping_visible w) \<and>
         length (takeWhile Not (mapping_visible w)) < 50
      then (Some (next_id w),
            w\<lparr>mapping_visible :=
                drop (Suc (length (takeWhile Not (mapping_visible w)))) (mapping_visible w),
              handles := (handles w)(next_id w \<mapsto> KMapping), next_id := Suc (next_id w),
              trace := trace w @ concat (replicate
                (Suc (length (takeWhile Not (mapping_visible w))))
                [Sleep_call 100, OpenFileMappingW_call])\<rparr>)
      else (None,
            w\<lparr>mapping_visible := drop 50 (mapping_visible w),
              trace := trace w @ concat (replicate 50
                [Sleep_call 100, OpenFileMappingW_call])\<rparr>))"
  by (rule poll_shared_memory_fuel) simp

text \<open>Lines 18 to 40, exactly. \<open>k\<close> is the number of polls, after the first attempt, at
  which the mapping is still absent.\<close>

lemma open_or_launch_exact:
  "open_or_launch c w =
     (if \<not> region_absent_for 1 w then
        (True, c\<lparr>m_sharedMemory := Some (next_id w)\<rparr>,
         w\<lparr>mapping_visible := tl (mapping_visible w),
           handles := (handles w)(next_id w \<mapsto> KMapping), next_id := Suc (next_id w),
           trace := trace w @ [OpenFileMappingW_call]\<rparr>)
      else if \<not> files w (encoderPath w) then
        (False, c\<lparr>m_sharedMemory := None\<rparr>,
         w\<lparr>mapping_visible := tl (mapping_visible w),
           trace := trace w @ [OpenFileMappingW_call, GetModuleFileNameW_call,
             exists_call (encoderPath w)]\<rparr>)
      else if \<not> spawn_ok w then
        (False, c\<lparr>m_sharedMemory := None\<rparr>,
         w\<lparr>mapping_visible := tl (mapping_visible w),
           trace := trace w @ [OpenFileMappingW_call, GetModuleFileNameW_call,
             exists_call (encoderPath w),
             CreateProcessW_call (cmdLine (encoderPath w) (m_width c) (m_height c)
               (m_codec c))]\<rparr>)
      else if length (takeWhile Not (tl (mapping_visible w))) < length (tl (mapping_visible w))
          \<and> length (takeWhile Not (tl (mapping_visible w))) < 50 then
        (True, c\<lparr>m_sharedMemory := Some (next_id w + 2), m_encoderProcess := Some (next_id w)\<rparr>,
         w\<lparr>mapping_visible :=
             drop (Suc (length (takeWhile Not (tl (mapping_visible w)))))
               (tl (mapping_visible w)),
           handles := (handles w)(next_id w \<mapsto> KProcess, Suc (next_id w) := None,
             next_id w + 2 \<mapsto> KMapping),
           next_id := next_id w + 3,
           trace := trace w @ [OpenFileMappingW_call, GetModuleFileNameW_call,
             exists_call (encoderPath w),
             CreateProcessW_call (cmdLine (encoderPath w) (m_width c) (m_height c)
               (m_codec c)),
             CloseHandle_call (Suc (next_id w))]
             @ concat (replicate (Suc (length (takeWhile Not (tl (mapping_visible w)))))
                 [Sleep_call 100, OpenFileMappingW_call])\<rparr>)
      else
        (False, c\<lparr>m_sharedMemory := None, m_encoderProcess := Some (next_id w)\<rparr>,
         w\<lparr>mapping_visible := drop 50 (tl (mapping_visible w)),
           handles := (handles w)(next_id w \<mapsto> KProcess, Suc (next_id w) := None),
           next_id := next_id w + 2,
           trace := trace w @ [OpenFileMappingW_call, GetModuleFileNameW_call,
             exists_call (encoderPath w),
             CreateProcessW_call (cmdLine (encoderPath w) (m_width c) (m_height c)
               (m_codec c)),
             CloseHandle_call (Suc (next_id w))]
             @ concat (replicate 50 [Sleep_call 100, OpenFileMappingW_call])\<rparr>))"
proof (cases "region_absent_for 1 w")
  case False
  then show ?thesis
    by (simp add: open_or_launch_def OpenFileMappingW_exact Let_def)
next
  case True
  have enc: "encoderPath (w\<lparr>mapping_visible := vis, trace := t\<rparr>) = encoderPath w" for vis t
    by (simp add: encoderPath_def)
  show ?thesis
    using True
    by (simp add: open_or_launch_def OpenFileMappingW_exact LaunchEncoderProcess_exact
        poll_shared_memory_exact enc fun_upd_def Let_def)
qed

text \<open>Claim C7. \<open>Initialize\<close> stores its arguments and first tries to open the named
  mapping. What follows is determined by the world, case by case.
  \<^item> The mapping is there: nothing is launched or polled; \<open>Initialize\<close> goes on to map the
    view with the handle it got.
  \<^item> The mapping is absent and \<open>alvr_encoder_arm64.exe\<close> in the directory of the host's
    own binary does not exist: \<open>Initialize\<close> fails after asking for the module path and
    testing the file; no process is created.
  \<^item> The file exists: \<^verbatim>\<open>CreateProcessW\<close> is called with the command line made of that
    path, the width and the height in decimal and the codec name (each \<^verbatim>\<open>char\<close>
    converted to \<^verbatim>\<open>wchar_t\<close>), separated by single spaces. If the call fails,
    \<open>Initialize\<close> fails.
  \<^item> The process is created: the thread handle is closed and the polling starts. Let \<open>k\<close>
    be the number of attempts after the first at which the mapping is still absent
    before it appears. If it appears and \<open>k < 50\<close>, there are exactly \<open>k + 1\<close> rounds of
    a sleep of 100 ms followed by one attempt to open the mapping, and \<open>Initialize\<close> goes
    on to map the view with the handle of the last attempt. Otherwise there are exactly
    50 rounds and \<open>Initialize\<close> fails, keeping the process handle.
  \<^item> Mapping the view and what follows make no further attempt to open the mapping and
    never sleep.\<close>

theorem Initialize_attach_or_launch:
  fixes c :: EncoderIpcClient and w :: os and width height :: u32 and codec :: string
  defines "c0 \<equiv> c\<lparr>m_width := width, m_height := height, m_codec := codec\<rparr>"
    and "later \<equiv> tl (mapping_visible w)"
    and "k \<equiv> length (takeWhile Not (tl (mapping_visible w)))"
    and "enc \<equiv> path_append (parent_path (module_path w)) (wide ''alvr_encoder_arm64.exe'')"
    and "cmd \<equiv> wstring (path_append (parent_path (module_path w))
                  (wide ''alvr_encoder_arm64.exe''))
               @ wide '' '' @ to_wstring (unat width) @ wide '' '' @ to_wstring (unat height)
               @ wide '' '' @ map wchar_of_char codec"
    and "rounds \<equiv> \<lambda>n. concat (replicate n [Sleep_call 100, OpenFileMappingW_call])"
  shows
    "Initialize c w width height codec =
       (if \<not> region_absent_for 1 w then
          map_and_handshake (c0\<lparr>m_sharedMemory := Some (next_id w)\<rparr>)
            (w\<lparr>mapping_visible := later,
               handles := (handles w)(next_id w \<mapsto> KMapping), next_id := Suc (next_id w),
               trace := trace w @ [OpenFileMappingW_call]\<rparr>)
        else if \<not> files w enc then
          (False, c0\<lparr>m_sharedMemory := None\<rparr>,
           w\<lparr>mapping_visible := later,
             trace := trace w @ [OpenFileMappingW_call, GetModuleFileNameW_call,
               exists_call enc]\<rparr>)
        else if \<not> spawn_ok w then
          (False, c0\<lparr>m_sharedMemory := None\<rparr>,
           w\<lparr>mapping_visible := later,
             trace := trace w @ [OpenFileMappingW_call, GetModuleFileNameW_call,
               exists_call enc, CreateProcessW_call cmd]\<rparr>)
        else if k < length later \<and> k < 50 then
          map_and_handshake
            (c0\<lparr>m_sharedMemory := Some (next_id w + 2), m_encoderProcess := Some (next_id w)\<rparr>)
            (w\<lparr>mapping_visible := drop (Suc k) later,
               handles := (handles w)(next_id w \<mapsto> KProcess, Suc (next_id w) := None,
                 next_id w + 2 \<mapsto> KMapping),
               next_id := next_id w + 3,
               trace := trace w @ [OpenFileMappingW_call, GetModuleFileNameW_call,
                 exists_call enc, CreateProcessW_call cmd, CloseHandle_call (Suc (next_id w))]
                 @ rounds (Suc k)\<rparr>)
        else
          (False, c0\<lparr>m_sharedMemory := None, m_encoderProcess := Some (next_id w)\<rparr>,
           w\<lparr>mapping_visible := drop 50 later,
             handles := (handles w)(next_id w \<mapsto> KProcess, Suc (next_id w) := None),
             next_id := next_id w + 2,
             trace := trace w @ [OpenFileMappingW_call, GetModuleFileNameW_call,
               exists_call enc, CreateProcessW_call cmd, CloseHandle_call (Suc (next_id w))]
               @ rounds 50\<rparr>))
     \<and> (\<forall>c' w'. \<exists>rest.
           trace (snd (snd (map_and_handshake c' w'))) =
             trace w' @ MapViewOfFile_call (m_sharedMemory c') # rest
           \<and> filter is_poll_call rest = [])"
proof -
  have "\<forall>c' w'. \<exists>rest.
           trace (snd (snd (map_and_handshake c' w'))) =
             trace w' @ MapViewOfFile_call (m_sharedMemory c') # rest
           \<and> filter is_poll_call rest = []"
    using map_and_handshake_trace by blast
  moreover have "Initialize c w width height codec =
      (let r = open_or_launch c0 w
       in if \<not> fst r then (False, snd r) else map_and_handshake (fst (snd r)) (snd (snd r)))"
    by (simp add: Initialize_def Let_def case_prod_beta c0_def)
  ultimately show ?thesis
    unfolding later_def k_def enc_def cmd_def rounds_def
    by (simp add: open_or_launch_exact encoderPath_def cmdLine_def c0_def Let_def)
qed

lemma takeWhile_Not_replicate:
  "takeWhile Not (replicate n False @ True # xs) = replicate n False"
  by (induction n) simp_all

theorem Initialize_attach_or_launch_witness:
  "fst (Initialize EncoderIpcClient_new worker_running 1920 1080 ''h264'')
   \<and> trace (snd (snd (Initialize EncoderIpcClient_new worker_running 1920 1080 ''h264''))) =
       [OpenFileMappingW_call, MapViewOfFile_call (Some 1), OpenEventW_call FRAME_READY_EVENT,
        OpenEventW_call PACKET_READY_EVENT, OpenEventW_call ENCODER_READY_EVENT,
        WaitForSingleObject_call (Some 5) 5000]
   \<and> mapping_visible worker_installed = [False, False, False, True]
   \<and> fst (Initialize EncoderIpcClient_new worker_installed 1920 1080 ''h264'')
   \<and> trace (snd (snd (Initialize EncoderIpcClient_new worker_installed 1920 1080 ''h264''))) =
       [OpenFileMappingW_call, GetModuleFileNameW_call,
        exists_call (map wide [''C:'', ''ALVR'', ''bin'', ''alvr_encoder_arm64.exe'']),
        CreateProcessW_call (wide ''C:'' @ [0x5C] @ wide ''ALVR'' @ [0x5C] @ wide ''bin''
          @ [0x5C] @ wide ''alvr_encoder_arm64.exe 1920 1080 h264''),
        CloseHandle_call 2,
        Sleep_call 100, OpenFileMappingW_call, Sleep_call 100, OpenFileMappingW_call,
        Sleep_call 100, OpenFileMappingW_call,
        MapViewOfFile_call (Some 3), OpenEventW_call FRAME_READY_EVENT,
        OpenEventW_call PACKET_READY_EVENT, OpenEventW_call ENCODER_READY_EVENT,
        WaitForSingleObject_call (Some 7) 5000]
   \<and> \<not> fst (Initialize EncoderIpcClient_new worker_missing 1920 1080 ''h264'')
   \<and> trace (snd (snd (Initialize EncoderIpcClient_new worker_missing 1920 1080 ''h264''))) =
       [OpenFileMappingW_call, GetModuleFileNameW_call,
        exists_call (map wide [''C:'', ''ALVR'', ''bin'', ''alvr_encoder_arm64.exe''])]
   \<and> \<not> fst (Initialize EncoderIpcClient_new (worker_installed\<lparr>spawn_ok := False\<rparr>) 1280 720
          [CHR ''h'', CHR 0xE9])
   \<and> trace (snd (snd (Initialize EncoderIpcClient_new (worker_installed\<lparr>spawn_ok := False\<rparr>)
          1280 720 [CHR ''h'', CHR 0xE9]))) =
       [OpenFileMappingW_call, GetModuleFileNameW_call,
        exists_call (map wide [''C:'', ''ALVR'', ''bin'', ''alvr_encoder_arm64.exe'']),
        CreateProcessW_call (wide ''C:'' @ [0x5C] @ wide ''ALVR'' @ [0x5C] @ wide ''bin''
          @ [0x5C] @ wide ''alvr_encoder_arm64.exe 1280 720 h'' @ [0xFFE9])]
   \<and> \<not> fst (Initialize EncoderIpcClient_new region_never_appears 1920 1080 ''h264'')
   \<and> trace (snd (snd (Initialize EncoderIpcClient_new region_never_appears 1920 1080
        ''h264''))) =
       [OpenFileMappingW_call, GetModuleFileNameW_call,
        exists_call (map wide [''C:'', ''ALVR'', ''bin'', ''alvr_encoder_arm64.exe'']),
        CreateProcessW_call (wide ''C:'' @ [0x5C] @ wide ''ALVR'' @ [0x5C] @ wide ''bin''
          @ [0x5C] @ wide ''alvr_encoder_arm64.exe 1920 1080 h264''),
        CloseHandle_call 2]
       @ concat (replicate 50 [Sleep_call 100, OpenFileMappingW_call])
   \<and> fst (Initialize EncoderIpcClient_new
        (worker_installed\<lparr>mapping_visible := False # replicate 49 False @ [True]\<rparr>)
        1920 1080 ''h264'')
   \<and> trace (snd (snd (Initialize EncoderIpcClient_new
        (worker_installed\<lparr>mapping_visible := False # replicate 49 False @ [True]\<rparr>)
        1920 1080 ''h264''))) =
       [OpenFileMappingW_call, GetModuleFileNameW_call,
        exists_call (map wide [''C:'', ''ALVR'', ''bin'', ''alvr_encoder_arm64.exe'']),
        CreateProcessW_call (wide ''C:'' @ [0x5C] @ wide ''ALVR'' @ [0x5C] @ wide ''bin''
          @ [0x5C] @ wide ''alvr_encoder_arm64.exe 1920 1080 h264''),
        CloseHandle_call 2]
       @ concat (replicate 50 [Sleep_call 100, OpenFileMappingW_call])
       @ [MapViewOfFile_call (Some 3), OpenEventW_call FRAME_READY_EVENT,
          OpenEventW_call PACKET_READY_EVENT, OpenEventW_call ENCODER_READY_EVENT,
          WaitForSingleObject_call (Some 7) 5000]
   \<and> Initialize EncoderIpcClient_new
        (worker_installed\<lparr>mapping_visible := False # replicate 50 False @ [True]\<rparr>)
        1920 1080 ''h264'' =
       (False,
        EncoderIpcClient_new\<lparr>m_encoderProcess := Some 1, m_width := 1920, m_height := 1080,
          m_codec := ''h264''\<rparr>,
        worker_installed\<lparr>mapping_visible := [True],
          handles := (handles worker_installed)(1 \<mapsto> KProcess), next_id := 3,
          trace := [OpenFileMappingW_call, GetModuleFileNameW_call,
            exists_call (map wide [''C:'', ''ALVR'', ''bin'', ''alvr_encoder_arm64.exe'']),
            CreateProcessW_call (wide ''C:'' @ [0x5C] @ wide ''ALVR'' @ [0x5C] @ wide ''bin''
              @ [0x5C] @ wide ''alvr_encoder_arm64.exe 1920 1080 h264''),
            CloseHandle_call 2]
            @ concat (replicate 50 [Sleep_call 100, OpenFileMappingW_call])\<rparr>)"
proof -
  note worlds = worker_running_def worker_installed_def worker_missing_def
    region_never_appears_def EncoderIpcClient_new_def region_absent_for_def
  note paths = path_append_def parent_path_def wide_def wchar_of_char_def to_wstring.simps
    digit_wchar_def
  note handshake = map_and_handshake_def MapViewOfFile_def OpenEventW_def
    WaitForEncoderReady_def WaitForSingleObject_def alloc_def log_def Let_def
  have a: "fst (Initialize EncoderIpcClient_new worker_running 1920 1080 ''h264'')"
    "trace (snd (snd (Initialize EncoderIpcClient_new worker_running 1920 1080 ''h264''))) =
       [OpenFileMappingW_call, MapViewOfFile_call (Some 1), OpenEventW_call FRAME_READY_EVENT,
        OpenEventW_call PACKET_READY_EVENT, OpenEventW_call ENCODER_READY_EVENT,
        WaitForSingleObject_call (Some 5) 5000]"
    using Initialize_attach_or_launch [of EncoderIpcClient_new worker_running 1920 1080
        "''h264''"]
    by (simp_all add: worlds handshake)
  have b: "mapping_visible worker_installed = [False, False, False, True]"
    "fst (Initialize EncoderIpcClient_new worker_installed 1920 1080 ''h264'')"
    "trace (snd (snd (Initialize EncoderIpcClient_new worker_installed 1920 1080 ''h264''))) =
       [OpenFileMappingW_call, GetModuleFileNameW_call,
        exists_call (map wide [''C:'', ''ALVR'', ''bin'', ''alvr_encoder_arm64.exe'']),
        CreateProcessW_call (wide ''C:'' @ [0x5C] @ wide ''ALVR'' @ [0x5C] @ wide ''bin''
          @ [0x5C] @ wide ''alvr_encoder_arm64.exe 1920 1080 h264''),
        CloseHandle_call 2,
        Sleep_call 100, OpenFileMappingW_call, Sleep_call 100, OpenFileMappingW_call,
        Sleep_call 100, OpenFileMappingW_call,
        MapViewOfFile_call (Some 3), OpenEventW_call FRAME_READY_EVENT,
        OpenEventW_call PACKET_READY_EVENT, OpenEventW_call ENCODER_READY_EVENT,
        WaitForSingleObject_call (Some 7) 5000]"
    using Initialize_attach_or_launch [of EncoderIpcClient_new worker_installed 1920 1080
        "''h264''"]
    by (simp_all add: worlds paths handshake)
  have c: "\<not> fst (Initialize EncoderIpcClient_new worker_missing 1920 1080 ''h264'')"
    "trace (snd (snd (Initialize EncoderIpcClient_new worker_missing 1920 1080 ''h264''))) =
       [OpenFileMappingW_call, GetModuleFileNameW_call,
        exists_call (map wide [''C:'', ''ALVR'', ''bin'', ''alvr_encoder_arm64.exe''])]"
    using Initialize_attach_or_launch [of EncoderIpcClient_new worker_missing 1920 1080
        "''h264''"]
    by (simp_all add: worlds paths)
  have d: "\<not> fst (Initialize EncoderIpcClient_new (worker_installed\<lparr>spawn_ok := False\<rparr>) 1280 720
          [CHR ''h'', CHR 0xE9])"
    "trace (snd (snd (Initialize EncoderIpcClient_new (worker_installed\<lparr>spawn_ok := False\<rparr>)
          1280 720 [CHR ''h'', CHR 0xE9]))) =
       [OpenFileMappingW_call, GetModuleFileNameW_call,
        exists_call (map wide [''C:'', ''ALVR'', ''bin'', ''alvr_encoder_arm64.exe'']),
        CreateProcessW_call (wide ''C:'' @ [0x5C] @ wide ''ALVR'' @ [0x5C] @ wide ''bin''
          @ [0x5C] @ wide ''alvr_encoder_arm64.exe 1280 720 h'' @ [0xFFE9])]"
    using Initialize_attach_or_launch [of EncoderIpcClient_new
        "worker_installed\<lparr>spawn_ok := False\<rparr>" 1280 720 "[CHR ''h'', CHR 0xE9]"]
    by (simp_all add: worlds paths)
  have e: "\<not> fst (Initialize EncoderIpcClient_new region_never_appears 1920 1080 ''h264'')"
    "trace (snd (snd (Initialize EncoderIpcClient_new region_never_appears 1920 1080
        ''h264''))) =
       [OpenFileMappingW_call, GetModuleFileNameW_call,
        exists_call (map wide [''C:'', ''ALVR'', ''bin'', ''alvr_encoder_arm64.exe'']),
        CreateProcessW_call (wide ''C:'' @ [0x5C] @ wide ''ALVR'' @ [0x5C] @ wide ''bin''
          @ [0x5C] @ wide ''alvr_encoder_arm64.exe 1920 1080 h264''),
        CloseHandle_call 2]
       @ concat (replicate 50 [Sleep_call 100, OpenFileMappingW_call])"
    using Initialize_attach_or_launch [of EncoderIpcClient_new region_never_appears 1920 1080
        "''h264''"]
    by (simp_all add: worlds paths)
  have f: "fst (Initialize EncoderIpcClient_new
        (worker_installed\<lparr>mapping_visible := False # replicate 49 False @ [True]\<rparr>)
        1920 1080 ''h264'')"
    "trace (snd (snd (Initialize EncoderIpcClient_new
        (worker_installed\<lparr>mapping_visible := False # replicate 49 False @ [True]\<rparr>)
        1920 1080 ''h264''))) =
       [OpenFileMappingW_call, GetModuleFileNameW_call,
        exists_call (map wide [''C:'', ''ALVR'', ''bin'', ''alvr_encoder_arm64.exe'']),
        CreateProcessW_call (wide ''C:'' @ [0x5C] @ wide ''ALVR'' @ [0x5C] @ wide ''bin''
          @ [0x5C] @ wide ''alvr_encoder_arm64.exe 1920 1080 h264''),
        CloseHandle_call 2]
       @ concat (replicate 50 [Sleep_call 100, OpenFileMappingW_call])
       @ [MapViewOfFile_call (Some 3), OpenEventW_call FRAME_READY_EVENT,
          OpenEventW_call PACKET_READY_EVENT, OpenEventW_call ENCODER_READY_EVENT,
          WaitForSingleObject_call (Some 7) 5000]"
    using Initialize_attach_or_launch [of EncoderIpcClient_new
        "worker_installed\<lparr>mapping_visible := False # replicate 49 False @ [True]\<rparr>"
        1920 1080 "''h264''"]
    by (simp_all add: worlds paths handshake takeWhile_Not_replicate)
  have g: "Initialize EncoderIpcClient_new
        (worker_installed\<lparr>mapping_visible := False # replicate 50 False @ [True]\<rparr>)
        1920 1080 ''h264'' =
       (False,
        EncoderIpcClient_new\<lparr>m_encoderProcess := Some 1, m_width := 1920, m_height := 1080,
          m_codec := ''h264''\<rparr>,
        worker_installed\<lparr>mapping_visible := [True],
          handles := (handles worker_installed)(1 \<mapsto> KProcess), next_id := 3,
          trace := [OpenFileMappingW_call, GetModuleFileNameW_call,
            exists_call (map wide [''C:'', ''ALVR'', ''bin'', ''alvr_encoder_arm64.exe'']),
            CreateProcessW_call (wide ''C:'' @ [0x5C] @ wide ''ALVR'' @ [0x5C] @ wide ''bin''
              @ [0x5C] @ wide ''alvr_encoder_arm64.exe 1920 1080 h264''),
            CloseHandle_call 2]
            @ concat (replicate 50 [Sleep_call 100, OpenFileMappingW_call])\<rparr>)"
    using Initialize_attach_or_launch [of EncoderIpcClient_new
        "worker_installed\<lparr>mapping_visible := False # replicate 50 False @ [True]\<rparr>"
        1920 1080 "''h264''"]
    by (simp add: worlds paths takeWhile_Not_replicate fun_eq_iff)
  show ?thesis
    using a b c d e f g by blast
qed

section \<open>The invariant of the connected flag\<close>

lemma open_or_launch_connected:
  "m_connected (fst (snd (open_or_launch c w))) = m_connected c"
  by (cases "region_absent_for 1 w")
     (simp_all add: open_or_launch_present open_or_launch_absent LaunchEncoderProcess_result(2))

lemma MapViewOfFile_null [simp]: "fst (MapViewOfFile None w) = None"
  by (simp add: MapViewOfFile_def Let_def)












section \<open>The shutdown flag\<close>

lemma MapViewOfFile_shm [simp]: "shm (snd (MapViewOfFile h w)) = shm w"
  by (simp add: MapViewOfFile_def log_def Let_def
      split: option.splits kobj.splits list.splits)

lemma OpenEventW_shm [simp]: "shm (snd (OpenEventW e w)) = shm w"
  by (simp add: OpenEventW_def alloc_def log_def Let_def split: option.splits)

lemma WaitForEncoderReady_shm [simp]: "shm (snd (WaitForEncoderReady c t w)) = shm w"
  by (simp add: WaitForEncoderReady_def case_prod_beta)

lemma open_or_launch_shm: "shm (snd (snd (open_or_launch c w))) = shm w"
  by (cases "region_absent_for 1 w")
     (simp_all add: open_or_launch_present open_or_launch_absent poll_shared_memory_frame)

text \<open>\<open>Initialize\<close> writes to the region only through the \<open>Shutdown\<close> of its failure
  paths, which sets the flag and happens only for a client that was connected.\<close>

lemma map_and_handshake_shm:
  "shm (snd (snd (map_and_handshake c w))) = shm w \<or>
   m_connected c \<and> shm (snd (snd (map_and_handshake c w))) = set_shutdown (shm w)"
  by (simp add: map_and_handshake_def Let_def case_prod_beta Shutdown_shm)

lemma Initialize_shm:
  "shm (snd (snd (Initialize c w width height codec))) = shm w \<or>
   m_connected c \<and> shm (snd (snd (Initialize c w width height codec))) = set_shutdown (shm w)"
proof -
  let ?ol = "open_or_launch (c\<lparr>m_width := width, m_height := height, m_codec := codec\<rparr>) w"
  show ?thesis
    using map_and_handshake_shm [of "fst (snd ?ol)" "snd (snd ?ol)"]
    by (auto simp: Initialize_def Let_def case_prod_beta open_or_launch_shm
        open_or_launch_connected)
qed

lemma step_disconnected_shm:
  assumes "\<not> m_connected (fst s)" and "\<not> is_Outside x"
  shows "shm (snd (step x s)) = shm (snd s)"
proof (cases s)
  case (Pair c w)
  show ?thesis
  proof (cases x)
    case (CInitialize width height codec)
    then show ?thesis
      using assms(1) Pair Initialize_shm [of c w width height codec] by auto
  next
    case (CSendFrame data data_size width height row_pitch timestamp_ns insert_idr format)
    then show ?thesis
      using assms(1) Pair by (simp add: SendFrame_rejects)
  next
    case (CReceivePacket timeout_ms)
    then show ?thesis
      using assms(1) Pair by (simp add: ReceivePacket_not_connected)
  next
    case CShutdown
    then show ?thesis
      using assms(1) Pair by (simp add: Shutdown_shm)
  next
    case (Outside f)
    then show ?thesis using assms(2) by simp
  qed
qed

lemma run_disconnected_shm:
  "stays_disconnected calls s \<Longrightarrow> list_all (\<lambda>x. \<not> is_Outside x) calls \<Longrightarrow>
   shm (snd (run calls s)) = shm (snd s)"
proof (induction calls arbitrary: s)
  case Nil
  then show ?case by simp
next
  case (Cons x xs)
  have "shm (snd (step x s)) = shm (snd s)"
    using Cons.prems by (intro step_disconnected_shm) simp_all
  then show ?case
    using Cons.IH [of "step x s"] Cons.prems by simp
qed


end
